(* ===== verification/Talktype_Prelude.thy ===== *)
theory Talktype_Prelude
  imports Complex_Main
begin

text \<open>
  Shared vocabulary of the TalkType development: the Python built-in operations the
  sources call on strings and integers (\<open>str.strip\<close>, \<open>" ".join\<close>, \<open>str(int)\<close>,
  \<open>int(str)\<close>), the Python exceptions the model needs, and the generic lemmas the
  component theories share.  Characters are Isabelle's 8-bit \<open>char\<close>: the model
  covers the code points below 256 of Python's Unicode strings.
  The collection \<open>py_simps\<close> gathers the rewrite rules that evaluate these
  operations on concrete strings.
\<close>

named_theorems py_simps "rewrite rules evaluating the Python built-ins of the model"

subsection \<open>Exceptions\<close>

text \<open>
  The Python exceptions that the modelled code can raise or catch.  \<open>Device_Error\<close>
  stands for \<open>sounddevice.PortAudioError\<close>, \<open>Recognizer_Error\<close> for any exception
  escaping \<open>WhisperModel.transcribe\<close>, \<open>Clipboard_Error\<close> for
  \<open>pyperclip.PyperclipException\<close>.  \<open>FileExistsError\<close> and \<open>FileNotFoundError\<close>
  are the \<open>OSError\<close>s of \<open>Path.mkdir\<close>, \<open>read_text\<close> and \<open>unlink\<close>.
\<close>

datatype py_exc =
    ValueError
  | ProcessLookupError
  | PermissionError
  | Device_Error
  | Recognizer_Error
  | Clipboard_Error
  | OverflowError
  | FileExistsError
  | FileNotFoundError

subsection \<open>Whitespace and \<open>str.strip\<close>\<close>

text \<open>
  \<open>str.isspace\<close> restricted to code points below 256: TAB, LF, VT, FF, CR, the
  separators 0x1C--0x1F, SPACE, NEL (0x85) and NO-BREAK SPACE (0xA0).
\<close>

definition py_isspace :: "char \<Rightarrow> bool" where
  "py_isspace c \<longleftrightarrow>
     (let n = of_char c :: nat in (9 \<le> n \<and> n \<le> 13) \<or> (28 \<le> n \<and> n \<le> 32) \<or> n = 133 \<or> n = 160)"

definition py_lstrip :: "string \<Rightarrow> string" where
  "py_lstrip s = dropWhile py_isspace s"

definition py_rstrip :: "string \<Rightarrow> string" where
  "py_rstrip s = rev (dropWhile py_isspace (rev s))"

definition py_strip :: "string \<Rightarrow> string" where
  "py_strip s = py_rstrip (py_lstrip s)"

subsection \<open>\<open>sep.join\<close>\<close>

fun py_join :: "string \<Rightarrow> string list \<Rightarrow> string" where
  "py_join sep [] = []"
| "py_join sep [x] = x"
| "py_join sep (x # y # ys) = x @ sep @ py_join sep (y # ys)"

subsection \<open>Decimal digits, \<open>str(int)\<close> and \<open>int(str)\<close>\<close>

definition is_digit :: "char \<Rightarrow> bool" where
  "is_digit c \<longleftrightarrow> (let n = of_char c :: nat in 48 \<le> n \<and> n \<le> 57)"

definition digit_char :: "nat \<Rightarrow> char" where
  "digit_char d = char_of (48 + d)"

definition digit_val :: "char \<Rightarrow> nat" where
  "digit_val c = of_char c - 48"

text \<open>\<open>str(n)\<close> for a natural number: its decimal digits, most significant first.\<close>

fun py_str_nat :: "nat \<Rightarrow> string" where
  "py_str_nat n = (if n < 10 then [digit_char n] else py_str_nat (n div 10) @ [digit_char (n mod 10)])"

declare py_str_nat.simps [simp del]

definition py_str_int :: "int \<Rightarrow> string" where
  "py_str_int i = (if i < 0 then CHR ''-'' # py_str_nat (nat (- i)) else py_str_nat (nat i))"

text \<open>
  The body of a base-10 literal accepted by \<open>int()\<close>: digits, with single
  underscores allowed between two digits (PEP 515).
\<close>

fun digit_body :: "string \<Rightarrow> bool" where
  "digit_body [] = False"
| "digit_body [c] = is_digit c"
| "digit_body (c # d # cs) =
     (is_digit c \<and> (if d = CHR ''_'' then digit_body cs \<and> cs \<noteq> [] \<and> is_digit (hd cs)
                    else digit_body (d # cs)))"

definition digits_value :: "string \<Rightarrow> nat" where
  "digits_value s = foldl (\<lambda>acc c. if c = CHR ''_'' then acc else 10 * acc + digit_val c) 0 s"

text \<open>
  \<open>int(s)\<close>: surrounding whitespace is ignored, an optional sign, then a digit body;
  anything else raises \<open>ValueError\<close>.
\<close>

definition py_int :: "string \<Rightarrow> py_exc + int" where
  "py_int s =
     (case py_strip s of
        [] \<Rightarrow> Inl ValueError
      | c # r \<Rightarrow>
          (if c = CHR ''+'' then (if digit_body r then Inr (int (digits_value r)) else Inl ValueError)
           else if c = CHR ''-'' then (if digit_body r then Inr (- int (digits_value r)) else Inl ValueError)
           else if digit_body (c # r) then Inr (int (digits_value (c # r))) else Inl ValueError))"

subsection \<open>Lemmas on the built-ins\<close>

text \<open>Evaluation of the built-ins on literals, by the simplifier.\<close>

declare py_isspace_def [py_simps] py_lstrip_def [py_simps] py_rstrip_def [py_simps]
  py_strip_def [py_simps] is_digit_def [py_simps] digit_val_def [py_simps]
  digits_value_def [py_simps] py_int_def [py_simps] py_str_int_def [py_simps]
  py_str_nat.simps [py_simps] digit_char_def [py_simps] char_of_def [py_simps] bit_0 [py_simps]


lemma digit_char_is_digit [simp]: "d < 10 \<Longrightarrow> is_digit (digit_char d)"
  by (simp add: is_digit_def digit_char_def)

lemma digit_val_digit_char [simp]: "d < 10 \<Longrightarrow> digit_val (digit_char d) = d"
  by (simp add: digit_val_def digit_char_def)

lemma digit_char_not_space [simp]: "d < 10 \<Longrightarrow> \<not> py_isspace (digit_char d)"
  by (simp add: py_isspace_def digit_char_def)

lemma digit_char_not_us [simp]: "d < 10 \<Longrightarrow> digit_char d \<noteq> CHR ''_''"
proof
  assume "d < 10" "digit_char d = CHR ''_''"
  then have "of_char (digit_char d) = (of_char (CHR ''_'') :: nat)" by simp
  with \<open>d < 10\<close> show False by (simp add: digit_char_def)
qed

lemma digit_char_not_sign [simp]:
  "d < 10 \<Longrightarrow> digit_char d \<noteq> CHR ''+''" "d < 10 \<Longrightarrow> digit_char d \<noteq> CHR ''-''"
proof -
  assume d: "d < 10"
  show "digit_char d \<noteq> CHR ''+''"
  proof
    assume "digit_char d = CHR ''+''"
    then have "of_char (digit_char d) = (of_char (CHR ''+'') :: nat)" by simp
    with d show False by (simp add: digit_char_def)
  qed
  show "digit_char d \<noteq> CHR ''-''"
  proof
    assume "digit_char d = CHR ''-''"
    then have "of_char (digit_char d) = (of_char (CHR ''-'') :: nat)" by simp
    with d show False by (simp add: digit_char_def)
  qed
qed

lemma py_str_nat_digits: "c \<in> set (py_str_nat n) \<Longrightarrow> \<exists>d<10. c = digit_char d"
proof (induction n rule: py_str_nat.induct)
  case (1 n)
  show ?case
  proof (cases "n < 10")
    case True
    with "1.prems" show ?thesis by (auto simp: py_str_nat.simps [of n])
  next
    case False
    from "1.prems" False
    have "c \<in> set (py_str_nat (n div 10)) \<or> c = digit_char (n mod 10)"
      by (auto simp add: py_str_nat.simps [of n])
    then show ?thesis
    proof
      assume "c \<in> set (py_str_nat (n div 10))"
      with "1.IH" False show ?thesis by blast
    next
      assume "c = digit_char (n mod 10)"
      moreover have "n mod 10 < (10::nat)" by simp
      ultimately show ?thesis by blast
    qed
  qed
qed

lemma us_not_digit [simp]: "\<not> is_digit CHR ''_''"
  by (simp add: is_digit_def)

lemma py_str_nat_ne [simp]: "py_str_nat n \<noteq> []"
  by (subst py_str_nat.simps) simp

lemma digit_body_snoc: "digit_body s \<Longrightarrow> is_digit c \<Longrightarrow> digit_body (s @ [c])"
proof (induction s rule: digit_body.induct)
  case (3 c' d cs)
  then show ?case by (cases cs) (auto split: if_splits)
qed auto

lemma digit_body_py_str_nat: "digit_body (py_str_nat n)"
proof (induction n rule: py_str_nat.induct)
  case (1 n)
  then show ?case
    by (cases "n < 10") (auto simp: py_str_nat.simps [of n] intro: digit_body_snoc)
qed

lemma digits_value_snoc:
  "digits_value (s @ [c]) = (if c = CHR ''_'' then digits_value s else 10 * digits_value s + digit_val c)"
  by (simp add: digits_value_def)

lemma digits_value_py_str_nat: "digits_value (py_str_nat n) = n"
proof (induction n rule: py_str_nat.induct)
  case (1 n)
  then show ?case
    by (cases "n < 10") (auto simp: py_str_nat.simps [of n] digits_value_snoc digits_value_def)
qed

lemma py_strip_no_space:
  assumes "s = [] \<or> (\<not> py_isspace (hd s) \<and> \<not> py_isspace (last s))"
  shows "py_strip s = s"
proof -
  have l: "py_lstrip s = s"
    using assms by (auto simp: py_lstrip_def dropWhile_eq_self_iff)
  have "dropWhile py_isspace (rev s) = rev s"
    using assms by (auto simp: dropWhile_eq_self_iff hd_rev)
  then show ?thesis by (simp add: py_strip_def py_rstrip_def l)
qed

lemma py_str_nat_hd_last:
  "is_digit (hd (py_str_nat n)) \<and> is_digit (last (py_str_nat n))
   \<and> \<not> py_isspace (hd (py_str_nat n)) \<and> \<not> py_isspace (last (py_str_nat n))
   \<and> hd (py_str_nat n) \<noteq> CHR ''+'' \<and> hd (py_str_nat n) \<noteq> CHR ''-''"
proof -
  have "hd (py_str_nat n) \<in> set (py_str_nat n)" "last (py_str_nat n) \<in> set (py_str_nat n)"
    by simp_all
  then obtain d e where "d < 10" "hd (py_str_nat n) = digit_char d"
    and "e < 10" "last (py_str_nat n) = digit_char e"
    by (blast dest: py_str_nat_digits)
  then show ?thesis by simp
qed

lemma py_strip_py_str_int: "py_strip (py_str_int i) = py_str_int i"
proof (rule py_strip_no_space)
  have "\<not> py_isspace CHR ''-''" by (simp add: py_isspace_def)
  then show "py_str_int i = [] \<or> \<not> py_isspace (hd (py_str_int i)) \<and> \<not> py_isspace (last (py_str_int i))"
    using py_str_nat_hd_last [of "nat (- i)"] py_str_nat_hd_last [of "nat i"]
    by (simp add: py_str_int_def)
qed

lemma py_int_py_str_int: "py_int (py_str_int i) = Inr i"
proof (cases "i < 0")
  case True
  then have "py_strip (py_str_int i) = CHR ''-'' # py_str_nat (nat (- i))"
    using py_strip_py_str_int [of i] by (simp add: py_str_int_def)
  with True show ?thesis
    by (simp add: py_int_def digit_body_py_str_nat digits_value_py_str_nat)
next
  case False
  obtain c r where cr: "py_str_nat (nat i) = c # r"
    by (cases "py_str_nat (nat i)") auto
  with py_str_nat_hd_last [of "nat i"] have "c \<noteq> CHR ''+''" "c \<noteq> CHR ''-''" by simp_all
  moreover from cr have "digit_body (c # r)" "digits_value (c # r) = nat i"
    using digit_body_py_str_nat [of "nat i"] digits_value_py_str_nat [of "nat i"] by simp_all
  ultimately show ?thesis
    using False py_strip_py_str_int [of i] cr by (simp add: py_int_def py_str_int_def)
qed

lemma rstrip_prefix: "\<exists>t. l = rev (dropWhile P (rev l)) @ t"
proof -
  have "rev l = takeWhile P (rev l) @ dropWhile P (rev l)" by simp
  then have "l = rev (dropWhile P (rev l)) @ rev (takeWhile P (rev l))"
    by (metis rev_append rev_rev_ident)
  then show ?thesis by blast
qed

lemma py_strip_ends:
  "py_strip s = [] \<or> (\<not> py_isspace (hd (py_strip s)) \<and> \<not> py_isspace (last (py_strip s)))"
proof (cases "py_strip s = []")
  case False
  let ?l = "py_lstrip s"
  obtain t where t: "?l = py_strip s @ t"
    using rstrip_prefix [of ?l py_isspace] by (auto simp: py_strip_def py_rstrip_def)
  with False have "hd (py_strip s) = hd ?l" "?l \<noteq> []" by simp_all
  moreover have "?l \<noteq> [] \<Longrightarrow> \<not> py_isspace (hd ?l)"
    by (simp add: py_lstrip_def hd_dropWhile)
  moreover have "dropWhile py_isspace (rev ?l) \<noteq> []"
    using False by (simp add: py_strip_def py_rstrip_def)
  then have "\<not> py_isspace (last (py_strip s))"
    by (simp add: py_strip_def py_rstrip_def last_rev hd_dropWhile)
  ultimately show ?thesis by simp
qed simp

lemma py_strip_idem: "py_strip (py_strip s) = py_strip s"
  using py_strip_ends [of s] by (rule py_strip_no_space)

end
