(* ===== verification/Speech_Gate.thy ===== *)
theory Speech_Gate
  imports Talktype_Prelude
begin

text \<open>
  The speech-presence gate and the call of the recognizer, from
  \<open>src/talktype_daemon.py\<close>: the configuration constants (lines 21--23),
  \<open>has_speech\<close> (lines 80--84) and \<open>transcribe\<close> (lines 86--93).
  Samples are the \<open>float32\<close> values of the numpy buffer, read as reals: the model
  computes the root-mean-square energy exactly and does not model \<open>float32\<close>
  rounding.  The speech recognizer (\<open>WhisperModel.transcribe\<close>) is an external
  collaborator, a parameter of type \<open>recognizer\<close>: given the samples and the
  language hint it yields the text of each segment or raises.
\<close>

subsection \<open>Configuration and audio\<close>

definition SAMPLE_RATE :: nat where
  "SAMPLE_RATE = 16000"

definition LANGUAGE :: string where
  "LANGUAGE = ''en''"

definition MODEL :: string where
  "MODEL = ''tiny''"

text \<open>The default \<open>threshold=0.005\<close> of \<open>has_speech\<close>.\<close>

definition speech_threshold :: real where
  "speech_threshold = 5 / 1000"

type_synonym audio = "real list"

type_synonym recognizer = "audio \<Rightarrow> string \<Rightarrow> py_exc + string list"

subsection \<open>\<open>has_speech\<close>\<close>

text \<open>
  \<open>np.sqrt(np.mean(audio ** 2))\<close>.  On an empty buffer numpy's mean is NaN and
  \<open>NaN > threshold\<close> is false, so an empty buffer never has speech.
\<close>

definition sum_squares :: "audio \<Rightarrow> real" where
  "sum_squares a = sum_list (map (\<lambda>x. x\<^sup>2) a)"

definition has_speech :: "audio \<Rightarrow> real \<Rightarrow> bool" where
  "has_speech audio threshold \<longleftrightarrow>
     audio \<noteq> [] \<and> threshold < sqrt (sum_squares audio / real (length audio))"

subsection \<open>\<open>transcribe\<close>\<close>

text \<open>
  \<open>len(audio) < SAMPLE_RATE * 0.5\<close> compares with the float \<open>8000.0\<close>; the
  \<open>or\<close> short-circuits, so the energy is only computed for long enough buffers.
  \<open>audio.astype(np.float32)\<close> does not change a \<open>float32\<close> buffer.
\<close>

definition too_short :: "audio \<Rightarrow> bool" where
  "too_short audio \<longleftrightarrow> real (length audio) < real SAMPLE_RATE * (1 / 2)"

definition transcribe :: "recognizer \<Rightarrow> audio \<Rightarrow> py_exc + string" where
  "transcribe recog audio =
     (if too_short audio \<or> \<not> has_speech audio speech_threshold then Inr []
      else (case recog audio LANGUAGE of
              Inl e \<Rightarrow> Inl e
            | Inr segs \<Rightarrow> Inr (py_strip (py_join '' '' segs))))"

subsection \<open>Lemmas\<close>

lemma too_short_iff [simp]: "too_short audio \<longleftrightarrow> length audio < 8000"
  by (simp add: too_short_def SAMPLE_RATE_def)

lemma sum_squares_nonneg: "0 \<le> sum_squares a"
  by (induction a) (simp_all add: sum_squares_def)

lemma sum_squares_replicate [simp]: "sum_squares (replicate n c) = real n * c\<^sup>2"
  by (simp add: sum_squares_def sum_list_replicate)

text \<open>The square root compares as its square: the executable form of the gate.\<close>

lemma has_speech_sq:
  assumes "0 \<le> threshold"
  shows "has_speech audio threshold \<longleftrightarrow>
           audio \<noteq> [] \<and> threshold\<^sup>2 * real (length audio) < sum_squares audio"
proof (cases "audio = []")
  case False
  then have n: "0 < real (length audio)" by simp
  have "threshold < sqrt (sum_squares audio / real (length audio)) \<longleftrightarrow>
        threshold\<^sup>2 < sum_squares audio / real (length audio)"
    using assms real_less_rsqrt real_sqrt_less_iff
    by (metis abs_of_nonneg real_sqrt_abs real_sqrt_less_iff)
  also have "\<dots> \<longleftrightarrow> threshold\<^sup>2 * real (length audio) < sum_squares audio"
    using n by (simp add: pos_less_divide_eq)
  finally show ?thesis using False by (simp add: has_speech_def)
qed (simp add: has_speech_def)

text \<open>The code equation of \<open>has_speech\<close>: \<open>sqrt\<close> is not executable on \<open>real\<close>.\<close>

lemma has_speech_code [code]:
  "has_speech audio threshold \<longleftrightarrow>
     audio \<noteq> [] \<and> (threshold < 0 \<or> threshold\<^sup>2 * real (length audio) < sum_squares audio)"
proof (cases "0 \<le> threshold")
  case True
  then show ?thesis by (simp add: has_speech_sq)
next
  case False
  have "0 \<le> sqrt (sum_squares audio / real (length audio))"
    by (rule real_sqrt_ge_zero) (simp add: sum_squares_nonneg)
  with False have "threshold < sqrt (sum_squares audio / real (length audio))"
    by linarith
  with False show ?thesis by (simp add: has_speech_def)
qed

lemma transcribe_gate_closed:
  "too_short audio \<or> \<not> has_speech audio speech_threshold \<Longrightarrow> transcribe recog audio = Inr []"
  by (simp add: transcribe_def)

text \<open>A buffer long enough for the recognizer is ignored whatever the recognizer answers
  exactly when the gate judges it silent.\<close>

lemma transcribe_silent_iff:
  assumes "\<not> too_short audio"
  shows "(\<forall>recog. transcribe recog audio = Inr []) \<longleftrightarrow> \<not> has_speech audio speech_threshold"
proof
  assume all: "\<forall>recog. transcribe recog audio = Inr []"
  show "\<not> has_speech audio speech_threshold"
  proof
    assume "has_speech audio speech_threshold"
    with assms have "transcribe (\<lambda>a l. Inr [''x'']) audio = Inr ''x''"
      by (simp add: transcribe_def py_simps)
    with all show False by simp
  qed
qed (simp add: transcribe_gate_closed)

subsection \<open>Properties of the gate\<close>

text \<open>
  C5.  A buffer shorter than half a second at the configured sample rate (8000
  samples) is answered with the empty text, whatever the recognizer would do: the
  recognizer is not invoked.
\<close>

theorem transcribe_short_no_recognizer:
  "length audio < 8000 \<Longrightarrow> transcribe recog audio = Inr []"
  by (simp add: transcribe_gate_closed)

theorem transcribe_short_no_recognizer_witness:
  "length (replicate 7999 (1 / 10 :: real)) < 8000 \<and>
   transcribe (\<lambda>a l. Inl Recognizer_Error) (replicate 7999 (1 / 10)) = Inr []"
  using transcribe_short_no_recognizer [of "replicate 7999 (1 / 10 :: real)" "\<lambda>a l. Inl Recognizer_Error"]
  by simp

text \<open>
  C6.  A buffer whose root-mean-square energy does not exceed the threshold 0.005 is
  answered with the empty text, whatever its length: the recognizer is not invoked.
\<close>

theorem transcribe_quiet_no_recognizer:
  "\<not> has_speech audio speech_threshold \<Longrightarrow> transcribe recog audio = Inr []"
  by (simp add: transcribe_gate_closed)

theorem transcribe_quiet_no_recognizer_witness:
  "\<not> has_speech (replicate 16000 (1 / 1000 :: real)) speech_threshold \<and>
   transcribe (\<lambda>a l. Inl Recognizer_Error) (replicate 16000 (1 / 1000)) = Inr []"
proof -
  have q: "\<not> has_speech (replicate 16000 (1 / 1000 :: real)) speech_threshold"
    by (simp add: has_speech_sq speech_threshold_def power2_eq_square)
  show ?thesis
    using q transcribe_quiet_no_recognizer [OF q, of "\<lambda>a l. Inl Recognizer_Error"] by simp
qed

text \<open>
  C7.  A buffer of at least 8000 samples with energy above the threshold is handed,
  whole, to the recognizer with the language hint; its segments are joined with single
  spaces and stripped, and an exception of the recognizer propagates.
\<close>

theorem transcribe_calls_recognizer:
  "8000 \<le> length audio \<Longrightarrow> has_speech audio speech_threshold \<Longrightarrow>
   transcribe recog audio =
     (case recog audio LANGUAGE of
        Inl e \<Rightarrow> Inl e
      | Inr segs \<Rightarrow> Inr (py_strip (py_join '' '' segs)))"
  by (simp add: transcribe_def)

theorem transcribe_calls_recognizer_witness:
  "8000 \<le> length (replicate 8000 (1 / 10 :: real)) \<and>
   has_speech (replicate 8000 (1 / 10)) speech_threshold \<and>
   transcribe (\<lambda>a l. Inr ['' hello'', ''world '']) (replicate 8000 (1 / 10)) = Inr ''hello world''"
proof -
  have h: "has_speech (replicate 8000 (1 / 10 :: real)) speech_threshold"
    by (simp add: has_speech_sq speech_threshold_def power2_eq_square)
  have l: "8000 \<le> length (replicate 8000 (1 / 10 :: real))" by simp
  show ?thesis
    using transcribe_calls_recognizer [OF l h, of "\<lambda>a l. Inr ['' hello'', ''world '']"] h
    by (simp add: py_strip_def py_lstrip_def py_rstrip_def py_isspace_def)
qed

text \<open>
  C18.  The comparison is strict: a buffer whose energy is exactly the threshold, a
  constant signal of amplitude 0.005 of any length, is treated as silence.
\<close>

theorem energy_at_threshold_is_silence:
  "\<not> has_speech (replicate n (5 / 1000)) speech_threshold \<and>
   transcribe recog (replicate n (5 / 1000)) = Inr []"
proof -
  have "\<not> has_speech (replicate n (5 / 1000)) speech_threshold"
    by (simp add: has_speech_sq speech_threshold_def)
  then show ?thesis by (simp add: transcribe_gate_closed)
qed

end
