(* ===== verification/Controller.thy ===== *)
theory Controller
  imports Speech_Gate
begin

text \<open>
  The recording controller of \<open>src/talktype_daemon.py\<close>: the \<open>State\<close> enumeration
  (lines 28--31), the module globals \<open>state\<close>, \<open>audio_chunks\<close>, \<open>stream\<close>
  (lines 33--36) as the record \<open>daemon\<close>, and the operations \<open>beep\<close>,
  \<open>audio_callback\<close>, \<open>start_recording\<close>, \<open>stop_recording\<close>, \<open>paste_text\<close>,
  \<open>transcribe_and_paste\<close> and \<open>toggle_recording\<close> (lines 39--139).
  The effects on the outside world are fields of the record: \<open>beeps\<close> lists the calls of
  \<open>beep\<close> (frequency in Hz, duration in s; \<open>sd.play\<close> errors are swallowed by the
  code, so a call is an attempted cue), \<open>clipboard\<close> lists the successful calls of
  \<open>pyperclip.copy\<close>, and \<open>tasks\<close> holds the background threads started by
  \<open>toggle_recording\<close> that have not finished yet.  The behaviour of the audio
  device is the environment's choice, a value of \<open>dev_env\<close>; a call of the device that
  fails raises, and an operation's result is an \<open>outcome\<close>: returned, or raised with
  the state at the point of the raise.  The controller's events form the machine
  \<open>ctrl_step\<close>; \<open>session_events\<close> are the events of one dictation session, used to
  state what runs of several sessions do.
\<close>

subsection \<open>State\<close>

datatype rec_state = IDLE | RECORDING | TRANSCRIBING

text \<open>An input stream that is opened (\<open>sd.InputStream(...)\<close>) or also started.\<close>

datatype stream_st = Opened | Started

text \<open>A background thread running \<open>transcribe_and_paste(audio)\<close>: not yet past its
  \<open>try\<close>/\<open>except\<close> part, or in its \<open>finally\<close> clause.\<close>

datatype task_st = Pending audio | Finishing

record daemon =
  state :: rec_state
  audio_chunks :: "audio list"
  stream :: "stream_st option"
  beeps :: "(nat \<times> real) list"
  clipboard :: "string list"
  tasks :: "task_st list"

definition init_daemon :: daemon where
  "init_daemon = \<lparr>state = IDLE, audio_chunks = [], stream = None, beeps = [], clipboard = [], tasks = []\<rparr>"

text \<open>Whether each call into the audio device succeeds.\<close>

record dev_env =
  dev_open :: bool
  dev_start :: bool
  dev_stop :: bool
  dev_close :: bool

datatype ('a, 's) outcome = Returned 'a | Raised py_exc 's

subsection \<open>Operations\<close>

definition beep :: "nat \<Rightarrow> real \<Rightarrow> daemon \<Rightarrow> daemon" where
  "beep freq duration d = d\<lparr>beeps := beeps d @ [(freq, duration)]\<rparr>"

text \<open>The waveform \<open>beep\<close> passes to \<open>sd.play\<close> (lines 41--42), for a non-negative
  duration: \<open>int(SAMPLE_RATE * duration)\<close> samples of a sine at \<open>np.linspace(0,
  duration, n, False)\<close>; the \<open>float32\<close> cast is not modelled.\<close>

definition beep_wave :: "nat \<Rightarrow> real \<Rightarrow> real \<Rightarrow> real list" where
  "beep_wave freq duration volume =
     (let n = nat \<lfloor>real SAMPLE_RATE * duration\<rfloor>
      in map (\<lambda>k. volume * sin (2 * pi * real freq * (duration * real k / real n))) [0..<n])"

definition audio_callback :: "audio \<Rightarrow> daemon \<Rightarrow> daemon" where
  "audio_callback indata d = d\<lparr>audio_chunks := audio_chunks d @ [indata]\<rparr>"

definition start_recording :: "dev_env \<Rightarrow> daemon \<Rightarrow> (daemon, daemon) outcome" where
  "start_recording dev d =
     (let d1 = d\<lparr>audio_chunks := []\<rparr> in
      if \<not> dev_open dev then Raised Device_Error d1
      else let d2 = d1\<lparr>stream := Some Opened\<rparr> in
        if \<not> dev_start dev then Raised Device_Error d2
        else Returned (beep 880 (8 / 100) (d2\<lparr>stream := Some Started\<rparr>)))"

definition stop_recording :: "dev_env \<Rightarrow> daemon \<Rightarrow> (audio \<times> daemon, daemon) outcome" where
  "stop_recording dev d =
     (if stream d \<noteq> None \<and> \<not> dev_stop dev then Raised Device_Error d
      else if stream d \<noteq> None \<and> \<not> dev_close dev then Raised Device_Error (d\<lparr>stream := Some Opened\<rparr>)
      else let d1 = beep 440 (12 / 100) (d\<lparr>stream := None\<rparr>)
           in Returned (concat (audio_chunks d1), d1))"

definition paste_text :: "bool \<Rightarrow> string \<Rightarrow> daemon \<Rightarrow> py_exc + daemon" where
  "paste_text clip_ok text d =
     (if \<not> clip_ok then Inl Clipboard_Error
      else Inr (beep 660 (8 / 100) (d\<lparr>clipboard := clipboard d @ [text]\<rparr>)))"

text \<open>The \<open>try\<close>/\<open>except\<close> part of \<open>transcribe_and_paste\<close> (lines 106--117).\<close>

definition transcribe_and_paste_try :: "recognizer \<Rightarrow> bool \<Rightarrow> audio \<Rightarrow> daemon \<Rightarrow> daemon" where
  "transcribe_and_paste_try recog clip_ok audio d =
     (case transcribe recog audio of
        Inl e \<Rightarrow> beep 220 (2 / 10) d
      | Inr text \<Rightarrow>
          (if text \<noteq> [] then
             (case paste_text clip_ok (CHR '' '' # text) d of
                Inl e \<Rightarrow> beep 220 (2 / 10) d
              | Inr d' \<Rightarrow> beep 660 (8 / 100) d')
           else beep 220 (2 / 10) d))"

text \<open>The \<open>finally\<close> clause (lines 118--120).\<close>

definition transcribe_and_paste_finally :: "daemon \<Rightarrow> daemon" where
  "transcribe_and_paste_finally d = d\<lparr>state := IDLE\<rparr>"

definition transcribe_and_paste :: "recognizer \<Rightarrow> bool \<Rightarrow> audio \<Rightarrow> daemon \<Rightarrow> daemon" where
  "transcribe_and_paste recog clip_ok audio d =
     transcribe_and_paste_finally (transcribe_and_paste_try recog clip_ok audio d)"

text \<open>The signal handler, run with \<open>state_lock\<close> held (lines 123--139).\<close>

definition toggle_recording :: "dev_env \<Rightarrow> daemon \<Rightarrow> (daemon, daemon) outcome" where
  "toggle_recording dev d =
     (case state d of
        IDLE \<Rightarrow> start_recording dev (d\<lparr>state := RECORDING\<rparr>)
      | RECORDING \<Rightarrow>
          (case stop_recording dev (d\<lparr>state := TRANSCRIBING\<rparr>) of
             Raised e d' \<Rightarrow> Raised e d'
           | Returned (audio, d') \<Rightarrow> Returned (d'\<lparr>tasks := tasks d' @ [Pending audio]\<rparr>))
      | TRANSCRIBING \<Rightarrow> Returned d)"

subsection \<open>The controller as a machine\<close>

text \<open>
  The events of the controller: a toggle signal, an audio block delivered by the
  device to \<open>audio_callback\<close> (only while the stream is started), and the two phases
  of the background thread with index \<open>i\<close>, which runs with the recognizer and the
  clipboard the environment provides.  An event that is not enabled changes nothing.
\<close>

datatype event =
    Toggle dev_env
  | Frame audio
  | Task_run nat recognizer bool
  | Task_finish nat

fun ctrl_step :: "daemon \<Rightarrow> event \<Rightarrow> (daemon, daemon) outcome" where
  "ctrl_step d (Toggle dev) = toggle_recording dev d"
| "ctrl_step d (Frame c) =
     Returned (if stream d = Some Started then audio_callback c d else d)"
| "ctrl_step d (Task_run i recog clip_ok) =
     Returned (if i < length (tasks d) then
                 (case tasks d ! i of
                    Pending a \<Rightarrow> (transcribe_and_paste_try recog clip_ok a d)\<lparr>tasks := (tasks d)[i := Finishing]\<rparr>
                  | Finishing \<Rightarrow> d)
               else d)"
| "ctrl_step d (Task_finish i) =
     Returned (if i < length (tasks d) \<and> tasks d ! i = Finishing then
                 (transcribe_and_paste_finally d)\<lparr>tasks := take i (tasks d) @ drop (Suc i) (tasks d)\<rparr>
               else d)"

fun ctrl_run :: "daemon \<Rightarrow> event list \<Rightarrow> (daemon, daemon) outcome" where
  "ctrl_run d [] = Returned d"
| "ctrl_run d (e # es) =
     (case ctrl_step d e of
        Raised x d' \<Rightarrow> Raised x d'
      | Returned d' \<Rightarrow> ctrl_run d' es)"

inductive ctrl_reach :: "daemon \<Rightarrow> bool" where
  init: "ctrl_reach init_daemon"
| step: "ctrl_reach d \<Longrightarrow> ctrl_step d e = Returned d' \<Longrightarrow> ctrl_reach d'"

text \<open>The controller's invariant: the recording state agrees with the stream and with
  the background threads, and at most one thread is in flight.\<close>

definition ctrl_inv :: "daemon \<Rightarrow> bool" where
  "ctrl_inv d \<longleftrightarrow>
     (state d = RECORDING \<longleftrightarrow> stream d = Some Started)
   \<and> stream d \<noteq> Some Opened
   \<and> (state d = TRANSCRIBING \<longleftrightarrow> tasks d \<noteq> [])
   \<and> length (tasks d) \<le> 1"

text \<open>A device on which every call succeeds, and the recording states a run goes through.\<close>

definition dev_ok :: dev_env where
  "dev_ok = \<lparr>dev_open = True, dev_start = True, dev_stop = True, dev_close = True\<rparr>"

fun ctrl_states :: "daemon \<Rightarrow> event list \<Rightarrow> rec_state list" where
  "ctrl_states d [] = []"
| "ctrl_states d (e # es) =
     (case ctrl_step d e of
        Raised x d' \<Rightarrow> []
      | Returned d' \<Rightarrow> state d' # ctrl_states d' es)"

subsection \<open>The abstract state machine of the specification\<close>

datatype abs_event = AToggle | ADone

fun abs_step :: "rec_state \<Rightarrow> abs_event \<Rightarrow> rec_state" where
  "abs_step IDLE AToggle = RECORDING"
| "abs_step RECORDING AToggle = TRANSCRIBING"
| "abs_step TRANSCRIBING AToggle = TRANSCRIBING"
| "abs_step TRANSCRIBING ADone = IDLE"
| "abs_step s ADone = s"

text \<open>What a concrete event is, seen by the abstract machine (\<open>None\<close>: no abstract step).\<close>

fun abs_ev :: "daemon \<Rightarrow> event \<Rightarrow> abs_event option" where
  "abs_ev d (Toggle dev) = Some AToggle"
| "abs_ev d (Task_finish i) =
     (if i < length (tasks d) \<and> tasks d ! i = Finishing then Some ADone else None)"
| "abs_ev d e = None"

text \<open>Two reachable states used by the witnesses: recording with one audio block, and
  transcribing it.\<close>

abbreviation sample_recording :: daemon where
  "sample_recording \<equiv> \<lparr>state = RECORDING, audio_chunks = [[1, 2]], stream = Some Started,
      beeps = [(880, 8 / 100)], clipboard = [], tasks = []\<rparr>"

abbreviation sample_transcribing :: daemon where
  "sample_transcribing \<equiv> \<lparr>state = TRANSCRIBING, audio_chunks = [[1, 2]], stream = None,
      beeps = [(880, 8 / 100), (440, 12 / 100)], clipboard = [], tasks = [Pending [1, 2]]\<rparr>"

abbreviation sample_idle :: daemon where
  "sample_idle \<equiv> \<lparr>state = IDLE, audio_chunks = [[1, 2]], stream = None,
      beeps = [(880, 8 / 100), (440, 12 / 100), (220, 2 / 10)], clipboard = [], tasks = []\<rparr>"

subsection \<open>Dictation sessions\<close>

text \<open>The controller events of one dictation session on a working device: a toggle,
  the blocks the device delivers, a toggle, and the two phases of the background
  thread it starts; and the clipboard writes the session makes.\<close>

definition session_events :: "recognizer \<Rightarrow> bool \<Rightarrow> audio list \<Rightarrow> event list" where
  "session_events recog clip_ok blocks =
     Toggle dev_ok # map Frame blocks @ [Toggle dev_ok, Task_run 0 recog clip_ok, Task_finish 0]"

definition session_paste :: "recognizer \<Rightarrow> bool \<Rightarrow> audio \<Rightarrow> string list" where
  "session_paste recog clip_ok audio =
     (case transcribe recog audio of
        Inr text \<Rightarrow> (if text \<noteq> [] \<and> clip_ok then [CHR '' '' # text] else [])
      | Inl e \<Rightarrow> [])"

subsection \<open>Library\<close>

lemmas ctrl_eval = toggle_recording_def start_recording_def stop_recording_def beep_def
  audio_callback_def init_daemon_def dev_ok_def

lemmas tap_eval = transcribe_and_paste_def transcribe_and_paste_try_def paste_text_def beep_def
  transcribe_and_paste_finally_def

lemma beep_fields [simp]:
  "state (beep f t d) = state d" "audio_chunks (beep f t d) = audio_chunks d"
  "stream (beep f t d) = stream d" "clipboard (beep f t d) = clipboard d"
  "tasks (beep f t d) = tasks d" "beeps (beep f t d) = beeps d @ [(f, t)]"
  by (simp_all add: beep_def)

lemma stream_none_iff: "s = None \<longleftrightarrow> s \<noteq> Some Started \<and> s \<noteq> Some Opened"
proof (cases s)
  case (Some a)
  then show ?thesis by (cases a) simp_all
qed simp

text \<open>The \<open>try\<close> part of the background thread touches only cues and clipboard.\<close>

lemma transcribe_and_paste_try_frame:
  "state (transcribe_and_paste_try r c a d) = state d
   \<and> stream (transcribe_and_paste_try r c a d) = stream d
   \<and> tasks (transcribe_and_paste_try r c a d) = tasks d
   \<and> audio_chunks (transcribe_and_paste_try r c a d) = audio_chunks d"
  by (simp add: transcribe_and_paste_try_def paste_text_def split: sum.split)

text \<open>Every normal return of the signal handler, by the state it started in.\<close>

lemma toggle_recording_cases:
  "toggle_recording dev d = Returned d' \<Longrightarrow>
     (state d = IDLE \<and> dev_open dev \<and> dev_start dev \<and>
        d' = beep 880 (8 / 100) (d\<lparr>state := RECORDING, audio_chunks := [], stream := Some Started\<rparr>))
   \<or> (state d = RECORDING \<and> (stream d \<noteq> None \<longrightarrow> dev_stop dev \<and> dev_close dev) \<and>
        d' = (beep 440 (12 / 100) (d\<lparr>state := TRANSCRIBING, stream := None\<rparr>))
               \<lparr>tasks := tasks d @ [Pending (concat (audio_chunks d))]\<rparr>)
   \<or> (state d = TRANSCRIBING \<and> d' = d)"
  by (cases "state d")
     (auto simp: toggle_recording_def start_recording_def stop_recording_def Let_def
           split: if_splits outcome.splits)

lemma ctrl_step_inv:
  assumes "ctrl_inv d" and "ctrl_step d e = Returned d'"
  shows "ctrl_inv d'"
proof (cases e)
  case (Toggle dev)
  with assms(2) have "toggle_recording dev d = Returned d'" by simp
  from toggle_recording_cases [OF this] assms(1) show ?thesis
    by (auto simp: ctrl_inv_def)
next
  case (Frame c)
  with assms show ?thesis by (auto simp: ctrl_inv_def audio_callback_def)
next
  case (Task_run i r c)
  with assms show ?thesis
    by (auto simp: ctrl_inv_def transcribe_and_paste_try_frame split: if_splits task_st.splits)
next
  case (Task_finish i)
  with assms show ?thesis
    by (auto simp: ctrl_inv_def transcribe_and_paste_finally_def split: if_splits)
qed

lemma ctrl_inv_init: "ctrl_inv init_daemon"
  by (simp add: ctrl_inv_def init_daemon_def)

lemma ctrl_reach_inv: "ctrl_reach d \<Longrightarrow> ctrl_inv d"
  by (induction rule: ctrl_reach.induct) (auto intro: ctrl_inv_init ctrl_step_inv)

lemma ctrl_step_refines:
  assumes "ctrl_inv d" and "ctrl_step d e = Returned d'"
  shows "state d' = (case abs_ev d e of None \<Rightarrow> state d | Some a \<Rightarrow> abs_step (state d) a)"
proof (cases e)
  case (Toggle dev)
  with assms(2) have "toggle_recording dev d = Returned d'" by simp
  from toggle_recording_cases [OF this] Toggle show ?thesis by auto
next
  case (Frame c)
  with assms show ?thesis by (auto simp: audio_callback_def)
next
  case (Task_run i r c)
  with assms show ?thesis
    by (auto simp: transcribe_and_paste_try_frame split: if_splits task_st.splits)
next
  case (Task_finish i)
  with assms show ?thesis
    by (auto simp: ctrl_inv_def transcribe_and_paste_finally_def split: if_splits)
qed

lemma ctrl_run_reach: "ctrl_reach d \<Longrightarrow> ctrl_run d es = Returned d' \<Longrightarrow> ctrl_reach d'"
proof (induction es arbitrary: d)
  case (Cons e es)
  then show ?case by (auto intro: ctrl_reach.step split: outcome.splits)
qed simp

lemma reach_sample_recording: "ctrl_reach sample_recording"
  by (rule ctrl_run_reach [OF ctrl_reach.init, of "[Toggle dev_ok, Frame [1, 2]]"])
     (simp add: ctrl_eval)

lemma reach_sample_transcribing: "ctrl_reach sample_transcribing"
  by (rule ctrl_run_reach [OF ctrl_reach.init, of "[Toggle dev_ok, Frame [1, 2], Toggle dev_ok]"])
     (simp add: ctrl_eval)

lemma loud_buffer_speech: "has_speech (replicate 8000 (1 / 10 :: real)) speech_threshold"
  by (simp add: has_speech_sq speech_threshold_def power2_eq_square)

lemma transcribe_loud_buffer:
  "transcribe (\<lambda>a l. Inr [''hello world'']) (replicate 8000 (1 / 10)) = Inr ''hello world''"
  "transcribe (\<lambda>a l. Inl Recognizer_Error) (replicate 8000 (1 / 10)) = Inl Recognizer_Error"
  using loud_buffer_speech
  by (simp_all add: transcribe_def py_strip_def py_lstrip_def py_rstrip_def py_isspace_def)

lemma reach_sample_idle: "ctrl_reach sample_idle"
  by (rule ctrl_run_reach [OF ctrl_reach.init,
        of "[Toggle dev_ok, Frame [1, 2], Toggle dev_ok, Task_run 0 (\<lambda>a l. Inr []) True, Task_finish 0]"])
     (simp add: ctrl_eval tap_eval transcribe_def)

lemma ctrl_run_append:
  "ctrl_run d (xs @ ys) = (case ctrl_run d xs of Returned d' \<Rightarrow> ctrl_run d' ys | Raised x d' \<Rightarrow> Raised x d')"
  by (induction xs arbitrary: d) (auto split: outcome.split)

lemma ctrl_run_frames:
  "stream d = Some Started \<Longrightarrow>
   ctrl_run d (map Frame bs) = Returned (d\<lparr>audio_chunks := audio_chunks d @ bs\<rparr>)"
proof (induction bs arbitrary: d)
  case (Cons b bs)
  have "ctrl_step d (Frame b) = Returned (audio_callback b d)" using Cons.prems by simp
  with Cons.IH [of "audio_callback b d"] Cons.prems show ?case by (simp add: audio_callback_def)
qed simp

lemma transcribe_and_paste_try_tasks:
  "transcribe_and_paste_try r c a (d\<lparr>tasks := t\<rparr>) = (transcribe_and_paste_try r c a d)\<lparr>tasks := t\<rparr>"
  by (simp add: transcribe_and_paste_try_def paste_text_def beep_def split: sum.split)

lemma daemon_update_id:
  "tasks r = t \<Longrightarrow> r\<lparr>tasks := t\<rparr> = r" "stream r = x \<Longrightarrow> r\<lparr>stream := x\<rparr> = r"
  by (cases r; simp)+

lemma ctrl_run_session:
  assumes "ctrl_reach d" and "state d = IDLE"
  shows "ctrl_run d (session_events recog clip_ok blocks) =
           Returned (transcribe_and_paste recog clip_ok (concat blocks)
             (d\<lparr>audio_chunks := blocks, state := TRANSCRIBING,
                beeps := beeps d @ [(880, 8 / 100), (440, 12 / 100)]\<rparr>))"
proof -
  from ctrl_reach_inv [OF assms(1)] assms(2) have s: "stream d = None" and t: "tasks d = []"
    by (simp_all add: ctrl_inv_def stream_none_iff)
  let ?d1 = "beep 880 (8 / 100) (d\<lparr>state := RECORDING, audio_chunks := [], stream := Some Started\<rparr>)"
  have t1: "ctrl_step d (Toggle dev_ok) = Returned ?d1"
    using assms(2) by (simp add: toggle_recording_def start_recording_def dev_ok_def)
  have f: "ctrl_run ?d1 (map Frame blocks) = Returned (?d1\<lparr>audio_chunks := blocks\<rparr>)"
    using ctrl_run_frames [of ?d1 blocks] by simp
  show ?thesis
    using t1 f s t
    by (simp add: session_events_def ctrl_run_append toggle_recording_def stop_recording_def dev_ok_def
        transcribe_and_paste_def transcribe_and_paste_finally_def transcribe_and_paste_try_tasks daemon_update_id
        beep_def transcribe_and_paste_try_frame)
qed

lemma transcribe_and_paste_fields:
  "clipboard (transcribe_and_paste r c a d) = clipboard d @ session_paste r c a"
  "state (transcribe_and_paste r c a d) = IDLE"
  by (simp_all add: tap_eval session_paste_def split: sum.split)

text \<open>A toggle that raises has already made its abstract step: the state is set
  before the device is called.\<close>

lemma toggle_recording_raised_state:
  "toggle_recording dev d = Raised x d' \<Longrightarrow> state d' = abs_step (state d) AToggle"
  by (cases "state d")
     (auto simp: toggle_recording_def start_recording_def stop_recording_def Let_def
           split: if_splits outcome.splits)

subsection \<open>Properties of the controller\<close>

text \<open>
  C1.  In every reachable state at most one background transcription thread is in
  flight, and one is in flight exactly when the state is \<open>TRANSCRIBING\<close>.
\<close>

theorem ctrl_reach_one_task:
  "ctrl_reach d \<Longrightarrow> length (tasks d) \<le> 1 \<and> (tasks d \<noteq> [] \<longleftrightarrow> state d = TRANSCRIBING)"
  using ctrl_reach_inv by (auto simp: ctrl_inv_def)

theorem ctrl_reach_one_task_witness:
  "ctrl_reach sample_transcribing \<and> length (tasks sample_transcribing) \<le> 1
   \<and> (tasks sample_transcribing \<noteq> [] \<longleftrightarrow> state sample_transcribing = TRANSCRIBING)"
  using ctrl_reach_one_task [OF reach_sample_transcribing] reach_sample_transcribing by simp

text \<open>
  C2.  The controller refines the specification's three-state machine: from a
  reachable state every step that returns either leaves the recording state alone or
  makes the abstract step of its event (a toggle: Idle to Recording, Recording to
  Transcribing, Transcribing ignored; the end of a background thread: Transcribing to
  Idle).  Frames and the \<open>try\<close> part of the thread are stuttering steps.
\<close>

theorem ctrl_step_refines_abs:
  "ctrl_reach d \<Longrightarrow> ctrl_step d e = Returned d' \<Longrightarrow>
   state d' = (case abs_ev d e of None \<Rightarrow> state d | Some a \<Rightarrow> abs_step (state d) a)"
  using ctrl_reach_inv ctrl_step_refines by blast

theorem ctrl_step_refines_abs_witness:
  "ctrl_reach sample_recording \<and> ctrl_step sample_recording (Toggle dev_ok) = Returned sample_transcribing
   \<and> state sample_transcribing =
       (case abs_ev sample_recording (Toggle dev_ok) of None \<Rightarrow> state sample_recording
        | Some a \<Rightarrow> abs_step (state sample_recording) a)"
proof -
  have s: "ctrl_step sample_recording (Toggle dev_ok) = Returned sample_transcribing"
    by (simp add: ctrl_eval)
  show ?thesis
    using ctrl_step_refines_abs [OF reach_sample_recording s] reach_sample_recording s by simp
qed

text \<open>
  C3.  A toggle delivered while transcribing is a no-op: the handler returns the state
  unchanged, so no capture starts, no cue sounds and no thread is spawned.
\<close>

theorem toggle_transcribing_noop:
  "state d = TRANSCRIBING \<Longrightarrow> toggle_recording dev d = Returned d"
  by (simp add: toggle_recording_def)

theorem toggle_transcribing_noop_witness:
  "state sample_transcribing = TRANSCRIBING \<and>
   toggle_recording dev_ok sample_transcribing = Returned sample_transcribing"
  using toggle_transcribing_noop [of sample_transcribing dev_ok] by simp

text \<open>
  C4.  From any reachable idle state, with a working device, two toggles and the
  completion of the background thread go through Recording, Transcribing (twice: the
  thread's \<open>try\<close> part keeps the state) and back to Idle, whatever the recognizer
  and the clipboard do.
\<close>

theorem ctrl_states_cycle:
  assumes "ctrl_reach d" and "state d = IDLE"
  shows "ctrl_states d [Toggle dev_ok, Toggle dev_ok, Task_run 0 recog clip_ok, Task_finish 0]
           = [RECORDING, TRANSCRIBING, TRANSCRIBING, IDLE]"
proof -
  from ctrl_reach_inv [OF assms(1)] assms(2) have "tasks d = []"
    by (simp add: ctrl_inv_def)
  then show ?thesis
    using assms(2)
    by (simp add: dev_ok_def toggle_recording_def start_recording_def stop_recording_def
        beep_def transcribe_and_paste_try_frame transcribe_and_paste_finally_def)
qed

theorem ctrl_states_cycle_witness:
  "ctrl_reach init_daemon \<and> state init_daemon = IDLE \<and>
   ctrl_states init_daemon [Toggle dev_ok, Toggle dev_ok, Task_run 0 (\<lambda>a l. Inl Recognizer_Error) True,
      Task_finish 0] = [RECORDING, TRANSCRIBING, TRANSCRIBING, IDLE]"
  using ctrl_states_cycle [OF ctrl_reach.init, of "\<lambda>a l. Inl Recognizer_Error" True] ctrl_reach.init
  by (simp add: init_daemon_def)

text \<open>
  C8.  When the recognizer yields a non-empty text and the clipboard works, the
  background thread writes the text, prefixed by one space, to the clipboard exactly
  once and ends with the state Idle.  The success cue (660 Hz) sounds twice: once in
  \<open>paste_text\<close> and once after it.
\<close>

theorem transcribe_and_paste_success:
  "transcribe recog audio = Inr text \<Longrightarrow> text \<noteq> [] \<Longrightarrow>
   transcribe_and_paste recog True audio d =
     d\<lparr>state := IDLE, beeps := beeps d @ [(660, 8 / 100), (660, 8 / 100)],
       clipboard := clipboard d @ [CHR '' '' # text]\<rparr>"
  by (simp add: tap_eval)

theorem transcribe_and_paste_success_witness:
  "transcribe (\<lambda>a l. Inr [''hello world'']) (replicate 8000 (1 / 10)) = Inr ''hello world'' \<and>
   ''hello world'' \<noteq> [] \<and>
   transcribe_and_paste (\<lambda>a l. Inr [''hello world'']) True (replicate 8000 (1 / 10)) sample_transcribing =
     sample_transcribing\<lparr>state := IDLE, beeps := beeps sample_transcribing @ [(660, 8 / 100), (660, 8 / 100)],
       clipboard := ['' hello world'']\<rparr>"
  using transcribe_and_paste_success [OF transcribe_loud_buffer(1), of sample_transcribing]
    transcribe_loud_buffer(1)
  by simp

text \<open>
  C9.  Every failure of the background thread is contained: when nothing is to be
  pasted (the recognizer raises, the gate or the recognizer yields the empty text, or
  \<open>pyperclip.copy\<close> raises) nothing is written to the clipboard, the failure cue
  (220 Hz) sounds once and the state ends Idle.
\<close>

theorem transcribe_and_paste_failure_contained:
  "session_paste recog clip_ok audio = [] \<Longrightarrow>
   transcribe_and_paste recog clip_ok audio d =
     d\<lparr>state := IDLE, beeps := beeps d @ [(220, 2 / 10)]\<rparr>"
  by (auto simp: tap_eval session_paste_def split: sum.splits if_splits)

theorem transcribe_and_paste_failure_contained_witness:
  "session_paste (\<lambda>a l. Inl Recognizer_Error) True (replicate 8000 (1 / 10)) = [] \<and>
   session_paste (\<lambda>a l. Inr [''hello world'']) False (replicate 8000 (1 / 10)) = [] \<and>
   transcribe_and_paste (\<lambda>a l. Inl Recognizer_Error) True (replicate 8000 (1 / 10)) sample_transcribing =
     sample_transcribing\<lparr>state := IDLE, beeps := beeps sample_transcribing @ [(220, 2 / 10)]\<rparr> \<and>
   transcribe_and_paste (\<lambda>a l. Inr [''hello world'']) False (replicate 8000 (1 / 10)) sample_transcribing =
     sample_transcribing\<lparr>state := IDLE, beeps := beeps sample_transcribing @ [(220, 2 / 10)]\<rparr>"
proof -
  have p: "session_paste (\<lambda>a l. Inl Recognizer_Error) True (replicate 8000 (1 / 10)) = []"
    "session_paste (\<lambda>a l. Inr [''hello world'']) False (replicate 8000 (1 / 10)) = []"
    using transcribe_loud_buffer by (simp_all add: session_paste_def)
  show ?thesis
    using transcribe_and_paste_failure_contained [OF p(1), of sample_transcribing]
      transcribe_and_paste_failure_contained [OF p(2), of sample_transcribing] p
    by simp
qed

text \<open>
  C12.  Audio accumulates only while recording: in a reachable state an audio block
  is appended to \<open>audio_chunks\<close> exactly when the state is Recording, since only
  then is the input stream started.
\<close>

theorem frame_only_while_recording:
  "ctrl_reach d \<Longrightarrow> ctrl_step d (Frame c) = Returned d' \<Longrightarrow>
   audio_chunks d' = (if state d = RECORDING then audio_chunks d @ [c] else audio_chunks d)"
  using ctrl_reach_inv [of d] by (auto simp: ctrl_inv_def audio_callback_def)

theorem frame_only_while_recording_witness:
  "ctrl_reach sample_transcribing \<and>
   ctrl_step sample_transcribing (Frame [3]) = Returned sample_transcribing \<and>
   audio_chunks sample_transcribing = [[1, 2]]"
  using frame_only_while_recording [OF reach_sample_transcribing, of "[3]" sample_transcribing]
    reach_sample_transcribing
  by simp

text \<open>
  C13.  A toggle while recording stops and closes the stream, sounds the 440 Hz cue,
  enters Transcribing and starts one background thread on the concatenation of all the
  audio blocks captured in the session.
\<close>

theorem toggle_recording_hands_off_buffer:
  "state d = RECORDING \<Longrightarrow> dev_stop dev \<Longrightarrow> dev_close dev \<Longrightarrow>
   toggle_recording dev d =
     Returned (d\<lparr>state := TRANSCRIBING, stream := None, beeps := beeps d @ [(440, 12 / 100)],
                 tasks := tasks d @ [Pending (concat (audio_chunks d))]\<rparr>)"
  by (simp add: toggle_recording_def stop_recording_def beep_def)

theorem toggle_recording_hands_off_buffer_witness:
  "state sample_recording = RECORDING \<and> dev_stop dev_ok \<and> dev_close dev_ok \<and>
   toggle_recording dev_ok sample_recording = Returned sample_transcribing"
  using toggle_recording_hands_off_buffer [of sample_recording dev_ok] by (simp add: dev_ok_def)

text \<open>
  C15.  A device error while starting the stream escapes the handler and leaves the
  controller in Recording with no started stream: a state that breaks the controller's
  invariant (the specification's open question on device errors; the exception itself
  terminates the daemon, see theory \<open>Daemon_Process\<close>).
\<close>

theorem start_failure_inconsistent:
  assumes "ctrl_inv d" and "state d = IDLE" and "\<not> dev_open dev \<or> \<not> dev_start dev"
  shows "\<exists>d'. toggle_recording dev d = Raised Device_Error d' \<and> state d' = RECORDING
           \<and> stream d' \<noteq> Some Started \<and> \<not> ctrl_inv d'"
proof -
  from assms(1,2) have "stream d = None"
    by (simp add: ctrl_inv_def stream_none_iff)
  with assms(2,3) show ?thesis
    by (auto simp: toggle_recording_def start_recording_def ctrl_inv_def Let_def)
qed

theorem start_failure_inconsistent_witness:
  "ctrl_inv init_daemon \<and> state init_daemon = IDLE \<and>
   \<not> dev_start (dev_ok\<lparr>dev_start := False\<rparr>) \<and>
   (\<exists>d'. toggle_recording (dev_ok\<lparr>dev_start := False\<rparr>) init_daemon = Raised Device_Error d'
       \<and> state d' = RECORDING \<and> stream d' \<noteq> Some Started \<and> \<not> ctrl_inv d')"
proof -
  have h: "ctrl_inv init_daemon" "state init_daemon = IDLE"
    "\<not> dev_open (dev_ok\<lparr>dev_start := False\<rparr>) \<or> \<not> dev_start (dev_ok\<lparr>dev_start := False\<rparr>)"
    by (simp_all add: ctrl_inv_def init_daemon_def dev_ok_def)
  have "\<not> dev_start (dev_ok\<lparr>dev_start := False\<rparr>)" by simp
  with start_failure_inconsistent [OF h] h(1,2) show ?thesis by blast
qed

text \<open>
  C36.  No audio leaks from one session into the next: from any reachable idle state,
  whatever earlier sessions left in \<open>audio_chunks\<close>, a session hands exactly the
  concatenation of its own blocks to the background thread, and ends as the thread
  leaves it after the 880 Hz and 440 Hz cues.
\<close>

theorem session_no_leak:
  "ctrl_reach d \<Longrightarrow> state d = IDLE \<Longrightarrow>
   ctrl_run d (session_events recog clip_ok blocks) =
     Returned (transcribe_and_paste recog clip_ok (concat blocks)
       (d\<lparr>audio_chunks := blocks, state := TRANSCRIBING,
          beeps := beeps d @ [(880, 8 / 100), (440, 12 / 100)]\<rparr>))"
  by (rule ctrl_run_session)

theorem session_no_leak_witness:
  "ctrl_reach sample_idle \<and> state sample_idle = IDLE \<and>
   ctrl_run sample_idle (session_events (\<lambda>a l. Inr [''x'']) True [[3]]) =
     Returned (transcribe_and_paste (\<lambda>a l. Inr [''x'']) True [3]
       (sample_idle\<lparr>audio_chunks := [[3]], state := TRANSCRIBING,
          beeps := beeps sample_idle @ [(880, 8 / 100), (440, 12 / 100)]\<rparr>))"
  using session_no_leak [OF reach_sample_idle, of "\<lambda>a l. Inr [''x'']" True "[[3]]"] reach_sample_idle
  by simp

text \<open>
  C37.  Sessions in a row: from any reachable idle state, a sequence of dictation
  sessions on a working device returns, ends idle in a reachable state, and the
  clipboard receives, in order, one write per session whose recognized text is
  non-empty (with its leading space), and nothing else.
\<close>

theorem sessions_clipboard:
  assumes "ctrl_reach d" and "state d = IDLE"
  shows "\<exists>d'. ctrl_run d (concat (map (\<lambda>(recog, blocks). session_events recog clip_ok blocks) ss)) = Returned d'
           \<and> ctrl_reach d' \<and> state d' = IDLE
           \<and> clipboard d' = clipboard d @ concat (map (\<lambda>(recog, blocks). session_paste recog clip_ok (concat blocks)) ss)"
  using assms
proof (induction ss arbitrary: d)
  case (Cons x ss)
  obtain recog blocks where x: "x = (recog, blocks)" by (cases x)
  let ?d1 = "transcribe_and_paste recog clip_ok (concat blocks)
               (d\<lparr>audio_chunks := blocks, state := TRANSCRIBING, beeps := beeps d @ [(880, 8 / 100), (440, 12 / 100)]\<rparr>)"
  have run1: "ctrl_run d (session_events recog clip_ok blocks) = Returned ?d1"
    using ctrl_run_session [OF Cons.prems] .
  have r1: "ctrl_reach ?d1" by (rule ctrl_run_reach [OF Cons.prems(1) run1])
  from Cons.IH [OF r1] transcribe_and_paste_fields(2) obtain d' where
    "ctrl_run ?d1 (concat (map (\<lambda>(recog, blocks). session_events recog clip_ok blocks) ss)) = Returned d'"
    "ctrl_reach d'" "state d' = IDLE"
    "clipboard d' = clipboard ?d1 @ concat (map (\<lambda>(recog, blocks). session_paste recog clip_ok (concat blocks)) ss)"
    by blast
  with run1 x show ?case by (simp add: ctrl_run_append transcribe_and_paste_fields(1))
qed auto

theorem sessions_clipboard_witness:
  "ctrl_reach init_daemon \<and> state init_daemon = IDLE \<and>
   (\<exists>d'. ctrl_run init_daemon (concat (map (\<lambda>(recog, blocks). session_events recog True blocks)
            [(\<lambda>a l. Inr [''hello''], [replicate 8000 (1 / 10)]), (\<lambda>a l. Inr [''world''], [replicate 8000 (1 / 10)])]))
          = Returned d'
        \<and> ctrl_reach d' \<and> state d' = IDLE \<and> clipboard d' = ['' hello'', '' world''])"
proof -
  have s0: "state init_daemon = IDLE" by (simp add: init_daemon_def)
  have p: "py_strip w \<noteq> [] \<Longrightarrow>
    session_paste (\<lambda>a l. Inr [w]) True (replicate 8000 (1 / 10)) = [CHR '' '' # py_strip w]" for w
    using loud_buffer_speech by (simp add: session_paste_def transcribe_def)
  have h: "py_strip ''hello'' = ''hello''" "py_strip ''world'' = ''world''"
    by (simp_all add: py_strip_def py_lstrip_def py_rstrip_def py_isspace_def)
  show ?thesis
    using sessions_clipboard [OF ctrl_reach.init s0, of True
        "[(\<lambda>a l. Inr [''hello''], [replicate 8000 (1 / 10)]), (\<lambda>a l. Inr [''world''], [replicate 8000 (1 / 10)])]"]
      ctrl_reach.init s0
    by (simp add: p h init_daemon_def)
qed

text \<open>
  C38.  The background thread always runs to completion: from any reachable state
  in which a transcription is in flight, the remaining phases of the thread (its
  \<open>try\<close> part, if not yet run, and its \<open>finally\<close> clause) return, whatever the
  recognizer and the clipboard do, and leave the controller idle with no thread.
\<close>

theorem transcription_thread_completes:
  assumes "ctrl_reach d" and "state d = TRANSCRIBING"
  shows "\<exists>d'. ctrl_run d [Task_run 0 recog clip_ok, Task_finish 0] = Returned d'
           \<and> state d' = IDLE \<and> tasks d' = []"
proof -
  from ctrl_reach_inv [OF assms(1)] assms(2) obtain t where t: "tasks d = [t]"
    by (auto simp: ctrl_inv_def le_Suc_eq length_Suc_conv)
  then show ?thesis
    by (cases t) (simp_all add: transcribe_and_paste_try_frame transcribe_and_paste_finally_def)
qed

theorem transcription_thread_completes_witness:
  "ctrl_reach sample_transcribing \<and> state sample_transcribing = TRANSCRIBING \<and>
   (\<exists>d'. ctrl_run sample_transcribing [Task_run 0 (\<lambda>a l. Inl Recognizer_Error) False, Task_finish 0] = Returned d'
      \<and> state d' = IDLE \<and> tasks d' = [])"
  using transcription_thread_completes [OF reach_sample_transcribing, of "\<lambda>a l. Inl Recognizer_Error" False]
    reach_sample_transcribing
  by simp


end
