(* ===== verification/Trigger.thy ===== *)
theory Trigger
  imports Talktype_Prelude
begin

text \<open>
  The toggle trigger, \<open>src/talktype_toggle.py\<close>: \<open>send_signal\<close> (lines 14--31) reads
  the daemon's process-control file, parses the process identifier with \<open>int()\<close> and
  sends \<open>SIGUSR1\<close> with \<open>os.kill\<close>.  The file is its contents (\<open>None\<close>: absent),
  and the operating system is a parameter of type \<open>os_env\<close>: the other running
  processes with their process groups, which of them the caller may signal, and the
  trigger's own identifier and group.  \<open>os.kill\<close> converts the identifier to a C
  \<open>int\<close> (\<open>OverflowError\<close> outside its range) and calls \<open>kill(2)\<close>, whose Linux
  semantics \<open>os_kill\<close> follows: a positive identifier names one process, 0 the
  caller's process group, -1 every process but \<open>init\<close> and the caller, and any other
  negative number the process group of its absolute value; \<open>ESRCH\<close> and \<open>EPERM\<close>
  become \<open>ProcessLookupError\<close> and \<open>PermissionError\<close>.  The result is the list of
  processes that received the signal.  \<open>SIGUSR1\<close> has its default disposition in the
  trigger, so a signal the trigger sends to itself terminates it before \<open>kill\<close>
  returns.  The run ends with an exit status: \<open>sys.exit(1)\<close>, the end of the script
  (status 0), an uncaught exception (status 1 with a traceback), or death by the signal.
\<close>

definition PID_MAX :: int where
  "PID_MAX = 2147483647"

text \<open>An identifier \<open>os.kill\<close> addresses as a single process.\<close>

definition valid_pid :: "int \<Rightarrow> bool" where
  "valid_pid p \<longleftrightarrow> 0 < p \<and> p \<le> PID_MAX"

text \<open>The file the trigger reads (line 16), below the user's home directory.\<close>

definition daemon_pid_file :: "string \<Rightarrow> string" where
  "daemon_pid_file home = home @ ''/.cache/talktype_daemon.pid''"

record os_env =
  procs :: "(int \<times> int) list"
  may_signal :: "int \<Rightarrow> bool"
  self_pid :: int
  self_pgrp :: int

definition proc_exists :: "os_env \<Rightarrow> int \<Rightarrow> bool" where
  "proc_exists os p \<longleftrightarrow> p = self_pid os \<or> p \<in> set (map fst (procs os))"

text \<open>A process may always signal itself.\<close>

definition can_signal :: "os_env \<Rightarrow> int \<Rightarrow> bool" where
  "can_signal os p \<longleftrightarrow> p = self_pid os \<or> may_signal os p"

definition group_members :: "os_env \<Rightarrow> int \<Rightarrow> int list" where
  "group_members os g =
     (if self_pgrp os = g then [self_pid os] else []) @ map fst (filter (\<lambda>(p, h). h = g) (procs os))"

text \<open>The processes \<open>kill(-1, sig)\<close> addresses: all but \<open>init\<close> and the caller.\<close>

definition kill_all_targets :: "os_env \<Rightarrow> int list" where
  "kill_all_targets os = filter (\<lambda>p. 1 < p \<and> p \<noteq> self_pid os) (map fst (procs os))"

text \<open>\<open>kill(2)\<close> on a process group: \<open>ESRCH\<close> for an empty group, \<open>EPERM\<close> when no
  member may be signalled, success when one may.  \<open>kill(-1)\<close> succeeds whenever
  there is a process to address, even if none of them may be signalled.\<close>

definition os_kill :: "os_env \<Rightarrow> int \<Rightarrow> py_exc + int list" where
  "os_kill os pid =
     (if pid < - PID_MAX - 1 \<or> PID_MAX < pid then Inl OverflowError
      else if 0 < pid then
        (if \<not> proc_exists os pid then Inl ProcessLookupError
         else if \<not> can_signal os pid then Inl PermissionError
         else Inr [pid])
      else if pid = 0 then Inr (filter (can_signal os) (group_members os (self_pgrp os)))
      else if pid = -1 then
        (if kill_all_targets os = [] then Inl ProcessLookupError
         else Inr (filter (can_signal os) (kill_all_targets os)))
      else if pid = - PID_MAX - 1 then Inl ProcessLookupError
      else if group_members os (- pid) = [] then Inl ProcessLookupError
      else if filter (can_signal os) (group_members os (- pid)) = [] then Inl PermissionError
      else Inr (filter (can_signal os) (group_members os (- pid))))"

datatype trig_exit = Exit_status int | Uncaught py_exc | Killed_by_SIGUSR1

record trigger_run =
  exit_how :: trig_exit
  pid_file_after :: "string option"
  signal_sent :: "int list option"

text \<open>The exit status as \<open>subprocess\<close> reports it: minus the signal number (10) for a
  death by \<open>SIGUSR1\<close>.\<close>

definition exit_code :: "trig_exit \<Rightarrow> int" where
  "exit_code x = (case x of Exit_status n \<Rightarrow> n | Uncaught e \<Rightarrow> 1 | Killed_by_SIGUSR1 \<Rightarrow> -10)"

text \<open>\<open>send_signal()\<close>; \<open>read_text().strip()\<close> then \<open>int()\<close>.\<close>

definition send_signal :: "os_env \<Rightarrow> string option \<Rightarrow> trigger_run" where
  "send_signal os pid_file =
     (case pid_file of
        None \<Rightarrow> \<lparr>exit_how = Exit_status 1, pid_file_after = None, signal_sent = None\<rparr>
      | Some text \<Rightarrow>
          (case py_int (py_strip text) of
             Inl e \<Rightarrow> \<lparr>exit_how = Uncaught e, pid_file_after = pid_file, signal_sent = None\<rparr>
           | Inr pid \<Rightarrow>
               (case os_kill os pid of
                  Inr ts \<Rightarrow>
                    \<lparr>exit_how = (if self_pid os \<in> set ts then Killed_by_SIGUSR1 else Exit_status 0),
                     pid_file_after = pid_file, signal_sent = Some ts\<rparr>
                | Inl ProcessLookupError \<Rightarrow>
                    \<lparr>exit_how = Exit_status 1, pid_file_after = None, signal_sent = None\<rparr>
                | Inl e \<Rightarrow> \<lparr>exit_how = Uncaught e, pid_file_after = pid_file, signal_sent = None\<rparr>)))"

text \<open>An operating system with the trigger \<open>tp\<close> and the processes \<open>ps\<close>, each the
  leader of its own process group and all signallable.\<close>

definition os_with :: "int \<Rightarrow> int list \<Rightarrow> os_env" where
  "os_with tp ps = \<lparr>procs = map (\<lambda>p. (p, p)) ps, may_signal = (\<lambda>p. p \<in> set ps), self_pid = tp, self_pgrp = tp\<rparr>"

subsection \<open>Library\<close>

lemma py_int_py_strip [simp]: "py_int (py_strip s) = py_int s"
  by (simp add: py_int_def py_strip_idem)

subsection \<open>Properties of the trigger\<close>

text \<open>
  C10.  With no process-control file the trigger exits with status 1 and sends no
  signal, whatever processes exist.
\<close>

theorem send_signal_no_pid_file:
  "send_signal os None = \<lparr>exit_how = Exit_status 1, pid_file_after = None, signal_sent = None\<rparr>"
  by (simp add: send_signal_def)

text \<open>
  C11.  When the file names a valid identifier of no running process, the trigger
  deletes the file, sends nothing and exits with status 1.
\<close>

theorem send_signal_stale_pid:
  "py_int text = Inr pid \<Longrightarrow> valid_pid pid \<Longrightarrow> \<not> proc_exists os pid \<Longrightarrow>
   send_signal os (Some text) = \<lparr>exit_how = Exit_status 1, pid_file_after = None, signal_sent = None\<rparr>"
  by (simp add: send_signal_def os_kill_def valid_pid_def)

theorem send_signal_stale_pid_witness:
  "py_int ''4242\<newline>'' = Inr 4242 \<and> valid_pid 4242 \<and> \<not> proc_exists (os_with 7 []) 4242 \<and>
   send_signal (os_with 7 []) (Some ''4242\<newline>'')
     = \<lparr>exit_how = Exit_status 1, pid_file_after = None, signal_sent = None\<rparr>"
proof -
  have p: "py_int ''4242\<newline>'' = Inr 4242"
    by (simp add: py_simps)
  have v: "valid_pid 4242" by (simp add: valid_pid_def PID_MAX_def)
  have e: "\<not> proc_exists (os_with 7 []) 4242" by (simp add: os_with_def proc_exists_def)
  show ?thesis using send_signal_stale_pid [OF p v e] p v e by simp
qed

text \<open>
  C19.  The trigger reads back what the daemon writes: given the file holding
  \<open>str(pid)\<close> of a valid identifier of another running process it may signal, it
  delivers \<open>SIGUSR1\<close> to exactly that process, keeps the file and exits with status 0.
\<close>

theorem send_signal_roundtrip:
  "valid_pid pid \<Longrightarrow> proc_exists os pid \<Longrightarrow> may_signal os pid \<Longrightarrow> pid \<noteq> self_pid os \<Longrightarrow>
   send_signal os (Some (py_str_int pid)) =
     \<lparr>exit_how = Exit_status 0, pid_file_after = Some (py_str_int pid), signal_sent = Some [pid]\<rparr>"
  by (simp add: send_signal_def os_kill_def py_int_py_str_int valid_pid_def can_signal_def)

theorem send_signal_roundtrip_witness:
  "valid_pid 31337 \<and> proc_exists (os_with 7 [31337]) 31337 \<and> may_signal (os_with 7 [31337]) 31337 \<and>
   31337 \<noteq> self_pid (os_with 7 [31337]) \<and>
   send_signal (os_with 7 [31337]) (Some ''31337'') =
     \<lparr>exit_how = Exit_status 0, pid_file_after = Some ''31337'', signal_sent = Some [31337]\<rparr>"
proof -
  have h: "proc_exists (os_with 7 [31337]) 31337" "may_signal (os_with 7 [31337]) 31337"
    "31337 \<noteq> self_pid (os_with 7 [31337])"
    by (simp_all add: os_with_def proc_exists_def)
  have t: "py_str_int 31337 = ''31337''"
    by (simp add: py_simps)
  have v: "valid_pid 31337" by (simp add: valid_pid_def PID_MAX_def)
  show ?thesis using send_signal_roundtrip [OF v h] v h t by simp
qed

text \<open>
  C20.  A process-control file whose contents \<open>int()\<close> rejects (an empty file, as a
  reader racing the daemon's \<open>write_text\<close> can see, or any non-numeric text) makes
  the trigger die with an uncaught \<open>ValueError\<close>: status 1, the file left in place,
  no signal sent.
\<close>

theorem send_signal_malformed:
  "py_int text = Inl e \<Longrightarrow>
   send_signal os (Some text) = \<lparr>exit_how = Uncaught e, pid_file_after = Some text, signal_sent = None\<rparr>"
  by (simp add: send_signal_def)

theorem send_signal_malformed_witness:
  "py_int '''' = Inl ValueError \<and> exit_code (Uncaught ValueError) = 1 \<and>
   send_signal (os_with 7 []) (Some '''') =
     \<lparr>exit_how = Uncaught ValueError, pid_file_after = Some '''', signal_sent = None\<rparr>"
proof -
  have p: "py_int '''' = Inl ValueError"
    by (simp add: py_simps)
  show ?thesis using send_signal_malformed [OF p] p by (simp add: exit_code_def)
qed

text \<open>
  C21.  The identifier is not checked to be positive: a file holding -1 makes
  \<open>os.kill\<close> send \<open>SIGUSR1\<close> to every process of the user but \<open>init\<close> and
  the trigger (whose default disposition terminates every one of them without a
  handler), and the trigger reports success with status 0, whenever there is a process
  to address.
\<close>

theorem send_signal_nonpositive_broadcast:
  "py_int text = Inr (-1) \<Longrightarrow> kill_all_targets os \<noteq> [] \<Longrightarrow>
   send_signal os (Some text) =
     \<lparr>exit_how = Exit_status 0, pid_file_after = Some text,
      signal_sent = Some (filter (may_signal os) (kill_all_targets os))\<rparr>"
proof -
  assume p: "py_int text = Inr (-1)" and t: "kill_all_targets os \<noteq> []"
  have n: "self_pid os \<notin> set (kill_all_targets os)" by (simp add: kill_all_targets_def)
  then have f: "filter (can_signal os) (kill_all_targets os) = filter (may_signal os) (kill_all_targets os)"
    by (intro filter_cong) (auto simp: can_signal_def)
  show ?thesis
    using p t f n by (simp add: send_signal_def os_kill_def PID_MAX_def)
qed

theorem send_signal_nonpositive_broadcast_witness:
  "py_int ''-1'' = Inr (-1) \<and> kill_all_targets (os_with 7 [42, 1000]) \<noteq> [] \<and>
   send_signal (os_with 7 [42, 1000]) (Some ''-1'') =
     \<lparr>exit_how = Exit_status 0, pid_file_after = Some ''-1'', signal_sent = Some [42, 1000]\<rparr>"
proof -
  have p: "py_int ''-1'' = Inr (-1)"
    by (simp add: py_simps)
  have t: "kill_all_targets (os_with 7 [42, 1000]) = [42, 1000]"
    by (simp add: kill_all_targets_def os_with_def)
  have m: "filter (may_signal (os_with 7 [42, 1000])) [42, 1000] = [42, 1000]"
    by (simp add: os_with_def)
  show ?thesis using send_signal_nonpositive_broadcast [OF p] p t m by simp
qed

text \<open>
  C22.  A running process the user may not signal (an identifier reused by another
  user's process) makes \<open>os.kill\<close> raise \<open>PermissionError\<close>, which the trigger does
  not catch: status 1, the stale file left in place.
\<close>

theorem send_signal_permission_error:
  "py_int text = Inr pid \<Longrightarrow> valid_pid pid \<Longrightarrow> proc_exists os pid \<Longrightarrow> \<not> can_signal os pid \<Longrightarrow>
   send_signal os (Some text) =
     \<lparr>exit_how = Uncaught PermissionError, pid_file_after = Some text, signal_sent = None\<rparr>"
  by (simp add: send_signal_def os_kill_def valid_pid_def)

theorem send_signal_permission_error_witness:
  "py_int ''1'' = Inr 1 \<and> valid_pid 1 \<and>
   proc_exists \<lparr>procs = [(1, 1)], may_signal = (\<lambda>p. False), self_pid = 7, self_pgrp = 7\<rparr> 1 \<and>
   \<not> can_signal \<lparr>procs = [(1, 1)], may_signal = (\<lambda>p. False), self_pid = 7, self_pgrp = 7\<rparr> 1 \<and>
   send_signal \<lparr>procs = [(1, 1)], may_signal = (\<lambda>p. False), self_pid = 7, self_pgrp = 7\<rparr> (Some ''1'') =
     \<lparr>exit_how = Uncaught PermissionError, pid_file_after = Some ''1'', signal_sent = None\<rparr>"
proof -
  have p: "py_int ''1'' = Inr 1"
    by (simp add: py_simps)
  have v: "valid_pid 1" by (simp add: valid_pid_def PID_MAX_def)
  have e: "proc_exists \<lparr>procs = [(1, 1)], may_signal = (\<lambda>p. False), self_pid = 7, self_pgrp = 7\<rparr> 1"
    "\<not> can_signal \<lparr>procs = [(1, 1)], may_signal = (\<lambda>p. False), self_pid = 7, self_pgrp = 7\<rparr> 1"
    by (simp_all add: proc_exists_def can_signal_def)
  show ?thesis using send_signal_permission_error [OF p v e] p v e by simp
qed

text \<open>
  C31.  An identifier beyond the range of a C \<open>int\<close> makes \<open>os.kill\<close> raise
  \<open>OverflowError\<close>, which the trigger does not catch: status 1, the file left in place.
\<close>

theorem send_signal_overflow:
  "py_int text = Inr pid \<Longrightarrow> PID_MAX < pid \<Longrightarrow>
   send_signal os (Some text) =
     \<lparr>exit_how = Uncaught OverflowError, pid_file_after = Some text, signal_sent = None\<rparr>"
  by (simp add: send_signal_def os_kill_def)

theorem send_signal_overflow_witness:
  "py_int ''99999999999'' = Inr 99999999999 \<and> PID_MAX < 99999999999 \<and>
   send_signal (os_with 7 []) (Some ''99999999999'') =
     \<lparr>exit_how = Uncaught OverflowError, pid_file_after = Some ''99999999999'', signal_sent = None\<rparr>"
proof -
  have p: "py_int ''99999999999'' = Inr 99999999999" by (simp add: py_simps)
  have b: "PID_MAX < 99999999999" by (simp add: PID_MAX_def)
  show ?thesis using send_signal_overflow [OF p b] p b by simp
qed

text \<open>
  C35.  A file holding 0 makes \<open>os.kill\<close> signal the trigger's own process group,
  the trigger included: \<open>SIGUSR1\<close> terminates the trigger before it can report, the
  file stays, and every process of its group that may be signalled (the daemon only if
  it shares the group) receives the signal.
\<close>

theorem send_signal_zero_kills_trigger:
  "py_int text = Inr 0 \<Longrightarrow>
   send_signal os (Some text) =
     \<lparr>exit_how = Killed_by_SIGUSR1, pid_file_after = Some text,
      signal_sent = Some (filter (can_signal os) (group_members os (self_pgrp os)))\<rparr>"
proof -
  assume p: "py_int text = Inr 0"
  have "self_pid os \<in> set (filter (can_signal os) (group_members os (self_pgrp os)))"
    by (simp add: group_members_def can_signal_def)
  with p show ?thesis by (simp add: send_signal_def os_kill_def PID_MAX_def)
qed

theorem send_signal_zero_kills_trigger_witness:
  "py_int ''0\<newline>'' = Inr 0 \<and> exit_code Killed_by_SIGUSR1 = -10 \<and>
   send_signal (os_with 7 [42]) (Some ''0\<newline>'') =
     \<lparr>exit_how = Killed_by_SIGUSR1, pid_file_after = Some ''0\<newline>'', signal_sent = Some [7]\<rparr>"
proof -
  have p: "py_int ''0\<newline>'' = Inr 0"
    by (simp add: py_simps)
  have g: "filter (can_signal (os_with 7 [42])) (group_members (os_with 7 [42]) (self_pgrp (os_with 7 [42]))) = [7]"
    by (simp add: group_members_def can_signal_def os_with_def)
  show ?thesis using send_signal_zero_kills_trigger [OF p, of "os_with 7 [42]"] p g
    by (simp add: exit_code_def)
qed

end
