(* ===== verification/Daemon_Process.thy ===== *)
theory Daemon_Process
  imports Controller Trigger
begin

text \<open>
  The daemon process around the controller, \<open>src/talktype_daemon.py\<close> lines 141--181:
  \<open>main\<close> writes the process-control file, loads the model, installs the signal
  handlers and sleeps forever; \<open>cleanup\<close> deletes the file and exits with status 0.
  The process is the record \<open>sys\<close>: the controller's state, the contents of the
  process-control file, the process status and the position of the main thread.
  \<^item> Before \<open>signal.signal\<close> runs (line 165) the default dispositions apply:
    \<open>SIGUSR1\<close> and \<open>SIGTERM\<close> terminate the process, \<open>SIGINT\<close> raises an uncaught
    \<open>KeyboardInterrupt\<close>; either way the process ends and the file stays.
  \<^item> A Python signal handler runs in the main thread between two bytecodes, also inside
    another handler.  \<open>toggle_recording\<close> first takes \<open>state_lock\<close>
    (\<open>In_handler\<close>), then runs its body (\<open>Handler_body\<close>).  A second \<open>SIGUSR1\<close>
    in between runs the handler again in the same thread, which blocks forever on the
    non-reentrant lock (\<open>Blocked_on_lock\<close>).  Lock acquisition is interruptible on
    POSIX, so \<open>SIGINT\<close>/\<open>SIGTERM\<close> still run \<open>cleanup\<close> there, and the
    \<open>SystemExit\<close> it raises leaves both handlers and ends the process.
  \<^item> The body of a toggle that starts or stops a recording ends in a cue: \<open>beep\<close>
    calls \<open>sd.play\<close> inside \<open>try: ... except: pass\<close> (lines 43--46).  The body runs
    up to that call (\<open>Handler_body\<close>, then \<open>Playing_cue\<close>) and the handler ends
    (\<open>Handler_return\<close>); the rest of the body (printing, and in the stopping branch the
    concatenation and the start of the thread) has no effect a signal could observe, so
    the model performs it with the body and lets the new thread run
    (\<open>Task_run\<close>) only once the handler has returned.  A termination signal while \<open>sd.play\<close> runs
    makes \<open>cleanup\<close> delete the file and raise \<open>SystemExit\<close>, which the bare
    \<open>except\<close> catches: the daemon lives on without its file (\<open>cleanup_in_cue\<close>),
    in the rest of the handler (\<open>After_cue\<close>), where signals act as in the body.
    A \<open>SIGUSR1\<close> there blocks the nested handler on the lock
    (\<open>Blocked_in_cue\<close>); a termination signal then unwinds the nested handler into
    \<open>sd.play\<close>, where the same \<open>except\<close> catches it.  A signal elsewhere in the body
    acts as one just before it: a termination signal's \<open>SystemExit\<close> crosses no
    handler and ends the process, a \<open>SIGUSR1\<close> blocks on the lock; so the model takes
    those signals before the body (a blocked thread may then have done part of the
    body in the code, but no event changes its state again either way).
  \<^item> An exception escaping a handler is raised in the main thread's
    \<open>while True: time.sleep(1)\<close> loop, which does not catch it: the process exits with
    status 1 and the file stays.
  \<^item> The device's callback thread and the background threads step the controller
    (\<open>ctrl_step\<close>) concurrently (a toggle reaches the controller only through the
    signal handler); a thread's \<open>finally\<close> needs \<open>state_lock\<close> and
    cannot run while the main thread holds it.
  \<^item> \<open>Run_trigger\<close> runs \<open>talktype_toggle.py\<close> once: \<open>send_signal\<close> on the
    current file, over the operating system \<open>sys_os\<close>, in which the daemon's identifier
    exists while the daemon is alive (and afterwards only if the environment reuses it);
    the daemon receives \<open>SIGUSR1\<close> whenever it is among the processes \<open>os.kill\<close>
    signalled.
\<close>

datatype main_pc =
    Booting | Loading_model | Serving | In_handler | Playing_cue | After_cue
  | Blocked_on_lock | Blocked_in_cue

datatype proc_status = Alive | Exited int | Killed_by_signal

datatype signum = SIGUSR1 | SIGINT | SIGTERM

record sys =
  ctrl :: daemon
  pid_file :: "string option"
  status :: proc_status
  pc :: main_pc

text \<open>\<open>PID_FILE\<close> (line 25), below the user's home directory; \<open>pid_file\<close> above is
  its contents.\<close>

definition PID_FILE :: "string \<Rightarrow> string" where
  "PID_FILE home = home @ ''/.cache/talktype_daemon.pid''"

definition sys_init :: "string option \<Rightarrow> sys" where
  "sys_init pf = \<lparr>ctrl = init_daemon, pid_file = pf, status = Alive, pc = Booting\<rparr>"

datatype sys_event =
    Boot
  | Model_loaded bool
  | Signal signum
  | Handler_body dev_env
  | Handler_return
  | Ctrl event
  | Run_trigger os_env

text \<open>\<open>main\<close> up to the model load (lines 152--153): the file holds \<open>str(os.getpid())\<close>.\<close>

definition main_write_pid :: "int \<Rightarrow> sys \<Rightarrow> sys" where
  "main_write_pid dpid s = s\<lparr>pid_file := Some (py_str_int dpid), pc := Loading_model\<rparr>"

text \<open>\<open>WhisperModel(...)\<close> returns, and the handlers are installed (lines 159--167), or it
  raises and the process dies.\<close>

definition main_load_model :: "bool \<Rightarrow> sys \<Rightarrow> sys" where
  "main_load_model ok s = (if ok then s\<lparr>pc := Serving\<rparr> else s\<lparr>status := Exited 1\<rparr>)"

definition cleanup :: "sys \<Rightarrow> sys" where
  "cleanup s = s\<lparr>pid_file := None, status := Exited 0\<rparr>"

text \<open>\<open>cleanup\<close> run while the toggle handler is inside \<open>sd.play\<close>: the file is
  deleted, and the \<open>SystemExit\<close> of \<open>sys.exit(0)\<close> is caught by \<open>beep\<close>'s bare
  \<open>except\<close> (line 45), so the handler goes on after the cue.\<close>

definition cleanup_in_cue :: "sys \<Rightarrow> sys" where
  "cleanup_in_cue s = s\<lparr>pid_file := None, pc := After_cue\<rparr>"

text \<open>The daemon's reaction to a signal, by the position of its main thread.\<close>

definition deliver :: "signum \<Rightarrow> sys \<Rightarrow> sys" where
  "deliver sg s =
     (case pc s of
        Booting \<Rightarrow> s\<lparr>status := Killed_by_signal\<rparr>
      | Loading_model \<Rightarrow> s\<lparr>status := Killed_by_signal\<rparr>
      | Serving \<Rightarrow> (if sg = SIGUSR1 then s\<lparr>pc := In_handler\<rparr> else cleanup s)
      | In_handler \<Rightarrow> (if sg = SIGUSR1 then s\<lparr>pc := Blocked_on_lock\<rparr> else cleanup s)
      | Playing_cue \<Rightarrow> (if sg = SIGUSR1 then s\<lparr>pc := Blocked_in_cue\<rparr> else cleanup_in_cue s)
      | After_cue \<Rightarrow> (if sg = SIGUSR1 then s\<lparr>pc := Blocked_on_lock\<rparr> else cleanup s)
      | Blocked_on_lock \<Rightarrow> (if sg = SIGUSR1 then s else cleanup s)
      | Blocked_in_cue \<Rightarrow> (if sg = SIGUSR1 then s else cleanup_in_cue s))"

definition handler_body :: "dev_env \<Rightarrow> sys \<Rightarrow> sys" where
  "handler_body dev s =
     (if pc s \<noteq> In_handler then s
      else case toggle_recording dev (ctrl s) of
             Returned d \<Rightarrow> s\<lparr>ctrl := d, pc := (if state (ctrl s) = TRANSCRIBING then Serving else Playing_cue)\<rparr>
           | Raised e d \<Rightarrow> s\<lparr>ctrl := d, status := Exited 1\<rparr>)"

text \<open>The rest of the handler after the cue (\<open>sd.play\<close> returned, or its exception
  caught) runs and the handler returns, releasing \<open>state_lock\<close>.\<close>

definition handler_return :: "sys \<Rightarrow> sys" where
  "handler_return s = (if pc s = Playing_cue \<or> pc s = After_cue then s\<lparr>pc := Serving\<rparr> else s)"

text \<open>Whether the main thread is in the toggle handler at or after its cue; the lock is
  held, and the thread that a stopping toggle starts (line 134) does not run yet.\<close>

definition in_cue :: "sys \<Rightarrow> bool" where
  "in_cue s \<longleftrightarrow> pc s = Playing_cue \<or> pc s = After_cue \<or> pc s = Blocked_in_cue"

definition lock_free :: "sys \<Rightarrow> bool" where
  "lock_free s \<longleftrightarrow> pc s \<noteq> In_handler \<and> pc s \<noteq> Blocked_on_lock \<and> \<not> in_cue s"

definition ctrl_event :: "event \<Rightarrow> sys \<Rightarrow> sys" where
  "ctrl_event e s =
     (if (case e of Toggle dev \<Rightarrow> True | Task_run i r c \<Rightarrow> in_cue s | Task_finish i \<Rightarrow> \<not> lock_free s
          | Frame b \<Rightarrow> False) then s
      else case ctrl_step (ctrl s) e of
             Returned d \<Rightarrow> s\<lparr>ctrl := d\<rparr>
           | Raised x d \<Rightarrow> s\<lparr>ctrl := d, status := Exited 1\<rparr>)"

text \<open>The process table the trigger sees: the live daemon is a process of the same user,
  leading its own process group (as a job of the shell that started it).\<close>

definition sys_os :: "int \<Rightarrow> os_env \<Rightarrow> sys \<Rightarrow> os_env" where
  "sys_os dpid os s =
     (if status s = Alive
      then os\<lparr>procs := (dpid, dpid) # filter (\<lambda>(p, g). p \<noteq> dpid) (procs os),
              may_signal := (\<lambda>p. p = dpid \<or> may_signal os p)\<rparr>
      else os)"

definition run_trigger :: "int \<Rightarrow> os_env \<Rightarrow> sys \<Rightarrow> sys" where
  "run_trigger dpid os s =
     (let r = send_signal (sys_os dpid os s) (pid_file s);
          s1 = s\<lparr>pid_file := pid_file_after r\<rparr>
      in if status s = Alive \<and> (case signal_sent r of Some ts \<Rightarrow> dpid \<in> set ts | None \<Rightarrow> False)
         then deliver SIGUSR1 s1 else s1)"

fun sys_step :: "int \<Rightarrow> sys \<Rightarrow> sys_event \<Rightarrow> sys" where
  "sys_step dpid s (Run_trigger os) = run_trigger dpid os s"
| "sys_step dpid s e =
     (if status s \<noteq> Alive then s
      else case e of
        Boot \<Rightarrow> (if pc s = Booting then main_write_pid dpid s else s)
      | Model_loaded ok \<Rightarrow> (if pc s = Loading_model then main_load_model ok s else s)
      | Signal sg \<Rightarrow> deliver sg s
      | Handler_body dev \<Rightarrow> handler_body dev s
      | Handler_return \<Rightarrow> handler_return s
      | Ctrl ev \<Rightarrow> ctrl_event ev s
      | Run_trigger os \<Rightarrow> s)"

fun sys_run :: "int \<Rightarrow> sys \<Rightarrow> sys_event list \<Rightarrow> sys" where
  "sys_run dpid s [] = s"
| "sys_run dpid s (e # es) = sys_run dpid (sys_step dpid s e) es"

inductive sys_reach :: "int \<Rightarrow> sys \<Rightarrow> bool" for dpid where
  init: "sys_reach dpid (sys_init pf)"
| step: "sys_reach dpid s \<Longrightarrow> sys_reach dpid (sys_step dpid s e)"

definition sys_inv :: "int \<Rightarrow> sys \<Rightarrow> bool" where
  "sys_inv dpid s \<longleftrightarrow>
     (status s = Alive \<longrightarrow>
        ctrl_reach (ctrl s)
        \<and> (pc s \<noteq> Booting \<longrightarrow> pid_file s = None \<or> pid_file s = Some (py_str_int dpid))
        \<and> (pc s = Loading_model \<longrightarrow> pid_file s = Some (py_str_int dpid)))"

definition no_term_signal :: "sys_event \<Rightarrow> bool" where
  "no_term_signal e \<longleftrightarrow> e \<noteq> Signal SIGINT \<and> e \<noteq> Signal SIGTERM"

subsection \<open>Library\<close>

lemma deliver_ctrl [simp]: "ctrl (deliver sg s) = ctrl s"
  by (cases "pc s") (simp_all add: deliver_def cleanup_def cleanup_in_cue_def)

lemma deliver_pid_file_cases: "pid_file (deliver sg s) = pid_file s \<or> pid_file (deliver sg s) = None"
  by (cases "pc s") (simp_all add: deliver_def cleanup_def cleanup_in_cue_def)


lemma deliver_alive_served:
  "status (deliver sg s) = Alive \<Longrightarrow>
   pc s \<noteq> Booting \<and> pc s \<noteq> Loading_model \<and> pc (deliver sg s) \<noteq> Booting \<and> pc (deliver sg s) \<noteq> Loading_model"
  by (cases "pc s") (auto simp: deliver_def cleanup_def cleanup_in_cue_def split: if_splits)

lemma handler_return_fields [simp]:
  "ctrl (handler_return s) = ctrl s" "pid_file (handler_return s) = pid_file s"
  "status (handler_return s) = status s"
  by (simp_all add: handler_return_def)

text \<open>The trigger, run against a live daemon whose identifier is in the file, delivers
  the signal to it and leaves the file alone; it exits with status 0 unless it is itself
  that process.\<close>

lemma os_kill_live_daemon:
  "valid_pid dpid \<Longrightarrow> status s = Alive \<Longrightarrow> os_kill (sys_os dpid os s) dpid = Inr [dpid]"
  by (simp add: os_kill_def sys_os_def valid_pid_def proc_exists_def can_signal_def)

lemma sys_os_self [simp]: "self_pid (sys_os dpid os s) = self_pid os"
  by (simp add: sys_os_def)

lemma send_signal_live_daemon:
  "valid_pid dpid \<Longrightarrow> status s = Alive \<Longrightarrow>
   send_signal (sys_os dpid os s) (Some (py_str_int dpid)) =
     \<lparr>exit_how = (if self_pid os = dpid then Killed_by_SIGUSR1 else Exit_status 0),
      pid_file_after = Some (py_str_int dpid), signal_sent = Some [dpid]\<rparr>"
  by (simp add: send_signal_def os_kill_live_daemon py_int_py_str_int)

lemma run_trigger_no_file: "pid_file s = None \<Longrightarrow> run_trigger dpid os s = s"
proof -
  assume f: "pid_file s = None"
  then have "s\<lparr>pid_file := None\<rparr> = s" by (cases s) simp
  with f show ?thesis by (simp add: run_trigger_def send_signal_def Let_def)
qed

lemma run_trigger_live:
  "valid_pid dpid \<Longrightarrow> status s = Alive \<Longrightarrow> pid_file s = Some (py_str_int dpid) \<Longrightarrow>
   run_trigger dpid os s = deliver SIGUSR1 s"
proof -
  assume d: "valid_pid dpid" and a: "status s = Alive" and f: "pid_file s = Some (py_str_int dpid)"
  then have eq: "s\<lparr>pid_file := Some (py_str_int dpid)\<rparr> = s" by (cases s) simp
  show ?thesis using d a f by (simp add: run_trigger_def send_signal_live_daemon Let_def eq)
qed

lemma sys_step_inv:
  assumes "valid_pid dpid" and "sys_inv dpid s"
  shows "sys_inv dpid (sys_step dpid s e)"
proof (cases "status s = Alive")
  case False
  then show ?thesis
  proof (cases e)
    case (Run_trigger os)
    with False show ?thesis
      by (simp add: sys_inv_def run_trigger_def Let_def)
  qed (simp_all add: sys_inv_def)
next
  case alive: True
  with assms(2) have r: "ctrl_reach (ctrl s)"
    and f: "pc s \<noteq> Booting \<Longrightarrow> pid_file s = None \<or> pid_file s = Some (py_str_int dpid)"
    and l: "pc s = Loading_model \<Longrightarrow> pid_file s = Some (py_str_int dpid)"
    by (simp_all add: sys_inv_def)
  show ?thesis
  proof (cases e)
    case Boot
    with alive r f l show ?thesis by (simp add: sys_inv_def main_write_pid_def)
  next
    case (Model_loaded ok)
    with alive r f l show ?thesis by (auto simp: sys_inv_def main_load_model_def)
  next
    case (Signal sg)
    from deliver_pid_file_cases [of sg s] f deliver_alive_served [of sg s] alive r Signal show ?thesis
      by (auto simp: sys_inv_def)
  next
    case (Handler_body dev)
    with alive r f l show ?thesis
      by (auto simp: sys_inv_def handler_body_def intro: ctrl_reach.step [where e = "Toggle dev"]
               split: outcome.splits)
  next
    case Handler_return
    with alive r f l show ?thesis by (auto simp: sys_inv_def handler_return_def)
  next
    case (Ctrl ev)
    with alive r f l show ?thesis
      by (auto simp: sys_inv_def ctrl_event_def intro: ctrl_reach.step split: outcome.splits)
  next
    case (Run_trigger os)
    show ?thesis
    proof (cases "pc s = Booting")
      case False
      with f have "pid_file s = None \<or> pid_file s = Some (py_str_int dpid)" by simp
      then consider "pid_file s = None" | "pid_file s = Some (py_str_int dpid)" by (rule disjE)
      then show ?thesis
      proof cases
        case 1
        with Run_trigger assms(2) show ?thesis by (simp add: run_trigger_no_file)
      next
        case 2
        from deliver_pid_file_cases [of SIGUSR1 s] deliver_alive_served [of SIGUSR1 s]
        show ?thesis using 2 Run_trigger alive assms(1) r
          by (auto simp: sys_inv_def run_trigger_live)
      qed
    next
      case True
      with Run_trigger alive r show ?thesis
        by (auto simp: sys_inv_def run_trigger_def Let_def dest: deliver_alive_served)
    qed
  qed
qed

lemma sys_inv_init: "sys_inv dpid (sys_init pf)"
  by (simp add: sys_inv_def sys_init_def ctrl_reach.init)

lemma sys_reach_inv: "sys_reach dpid s \<Longrightarrow> valid_pid dpid \<Longrightarrow> sys_inv dpid s"
  by (induction rule: sys_reach.induct) (auto intro: sys_inv_init sys_step_inv)

lemma sys_run_reach: "sys_reach dpid s \<Longrightarrow> sys_reach dpid (sys_run dpid s es)"
  by (induction es arbitrary: s) (auto intro: sys_reach.step)

lemma sys_reach_pid_file:
  "sys_reach dpid s \<Longrightarrow> valid_pid dpid \<Longrightarrow> status s = Alive \<Longrightarrow> pc s \<noteq> Booting \<Longrightarrow>
   pid_file s = None \<or> pid_file s = Some (py_str_int dpid)"
  using sys_reach_inv by (simp add: sys_inv_def)

lemma sys_reach_some_pid_file:
  "sys_reach dpid s \<Longrightarrow> valid_pid dpid \<Longrightarrow> status s = Alive \<Longrightarrow> pc s \<noteq> Booting \<Longrightarrow>
   pid_file s \<noteq> None \<Longrightarrow> pid_file s = Some (py_str_int dpid)"
  using sys_reach_pid_file [of dpid s] by auto

lemma sys_reach_loading_pid_file:
  "sys_reach dpid s \<Longrightarrow> valid_pid dpid \<Longrightarrow> status s = Alive \<Longrightarrow> pc s = Loading_model \<Longrightarrow>
   pid_file s = Some (py_str_int dpid)"
  using sys_reach_inv by (simp add: sys_inv_def)

lemma run_trigger_ctrl: "ctrl (run_trigger dpid os s) = ctrl s"
  by (simp add: run_trigger_def Let_def)

text \<open>Every event of the daemon process, a handler that raises included, changes the
  recording state at most by a step of the specification's machine.\<close>

lemma sys_step_refines:
  assumes "ctrl_inv (ctrl s)" and "status s = Alive"
  shows "state (ctrl (sys_step dpid s e)) = state (ctrl s)
         \<or> (\<exists>a. state (ctrl (sys_step dpid s e)) = abs_step (state (ctrl s)) a)"
proof (cases e)
  case (Handler_body dev)
  show ?thesis
  proof (cases "pc s = In_handler")
    case True
    then show ?thesis
    proof (cases "toggle_recording dev (ctrl s)")
      case (Returned d)
      then have "ctrl_step (ctrl s) (Toggle dev) = Returned d" by simp
      from ctrl_step_refines [OF assms(1) this] Returned True Handler_body assms(2) show ?thesis
        by (auto simp: handler_body_def)
    next
      case (Raised x d)
      from toggle_recording_raised_state [OF this] Raised True Handler_body show ?thesis
        by (auto simp: handler_body_def)
    qed
  qed (use Handler_body assms in \<open>simp add: handler_body_def\<close>)
next
  case (Ctrl ev)
  show ?thesis
  proof (cases "ctrl_step (ctrl s) ev")
    case (Returned d)
    from ctrl_step_refines [OF assms(1) this] Ctrl Returned assms(2) show ?thesis
      by (cases "abs_ev (ctrl s) ev") (auto simp: ctrl_event_def)
  next
    case (Raised x d)
    with Ctrl show ?thesis
      by (cases ev) (auto simp: ctrl_event_def)
  qed
qed (use assms in \<open>simp_all add: run_trigger_ctrl main_write_pid_def main_load_model_def\<close>)


text \<open>One step of a main thread that is blocked on the lock, by an event that is not a
  termination signal, leaves it blocked and the recording state as it was.\<close>

lemma blocked_step:
  assumes "status s = Alive" and "pc s = Blocked_on_lock" and "no_term_signal e"
  shows "status (sys_step dpid s e) = Alive \<and> pc (sys_step dpid s e) = Blocked_on_lock
         \<and> state (ctrl (sys_step dpid s e)) = state (ctrl s)"
proof (cases e)
  case (Signal sg)
  with assms show ?thesis by (cases sg) (simp_all add: no_term_signal_def deliver_def)
next
  case (Ctrl ev)
  with assms show ?thesis
    by (cases ev) (auto simp: ctrl_event_def lock_free_def audio_callback_def
                        transcribe_and_paste_try_frame split: task_st.splits)
next
  case (Run_trigger os)
  with assms show ?thesis by (simp add: run_trigger_def Let_def deliver_def)
qed (use assms in \<open>simp_all add: handler_body_def handler_return_def\<close>)

lemma sys_run_frames:
  "status s = Alive \<Longrightarrow> stream (ctrl s) = Some Started \<Longrightarrow>
   sys_run dpid s (map (\<lambda>b. Ctrl (Frame b)) bs) =
     s\<lparr>ctrl := (ctrl s)\<lparr>audio_chunks := audio_chunks (ctrl s) @ bs\<rparr>\<rparr>"
proof (induction bs arbitrary: s)
  case (Cons b bs)
  let ?s = "s\<lparr>ctrl := (ctrl s)\<lparr>audio_chunks := audio_chunks (ctrl s) @ [b]\<rparr>\<rparr>"
  have "sys_step dpid s (Ctrl (Frame b)) = ?s"
    using Cons.prems by (simp add: ctrl_event_def audio_callback_def)
  with Cons.IH [of ?s] Cons.prems show ?case by simp
qed simp

lemmas sys_eval = sys_init_def main_write_pid_def main_load_model_def deliver_def
  handler_body_def handler_return_def ctrl_event_def lock_free_def in_cue_def cleanup_def
  cleanup_in_cue_def

lemma sys_run_triggers_no_file:
  "pid_file s = None \<Longrightarrow> sys_run dpid s (map Run_trigger oss) = s"
  by (induction oss) (simp_all add: run_trigger_no_file)

text \<open>The states of a daemon that has started and loaded its model, and of one whose
  first toggle has run its body and plays the start cue.\<close>

lemma sys_started:
  "sys_run dpid (sys_init pf) [Boot, Model_loaded True] =
     \<lparr>ctrl = init_daemon, pid_file = Some (py_str_int dpid), status = Alive, pc = Serving\<rparr>"
  by (simp add: sys_eval)

lemma sys_first_toggle:
  "sys_run dpid (sys_init pf) [Boot, Model_loaded True, Signal SIGUSR1, Handler_body dev_ok] =
     \<lparr>ctrl = init_daemon\<lparr>state := RECORDING, stream := Some Started, beeps := [(880, 8 / 100)]\<rparr>,
      pid_file = Some (py_str_int dpid), status = Alive, pc = Playing_cue\<rparr>"
  by (simp add: sys_eval ctrl_eval)

subsection \<open>Properties of the daemon process\<close>

text \<open>
  C23.  An exception escaping the toggle handler (a failing audio device) ends the
  daemon with status 1 and leaves the process-control file in place (when it has one),
  naming a process that no longer exists: the daemon does not survive a device error,
  contrary to the specification's error-handling section.
\<close>

theorem device_error_kills_daemon:
  "sys_reach dpid s \<Longrightarrow> valid_pid dpid \<Longrightarrow> status s = Alive \<Longrightarrow> pc s = In_handler \<Longrightarrow>
   pid_file s \<noteq> None \<Longrightarrow> toggle_recording dev (ctrl s) = Raised e d \<Longrightarrow>
   status (sys_step dpid s (Handler_body dev)) = Exited 1 \<and>
   pid_file (sys_step dpid s (Handler_body dev)) = Some (py_str_int dpid)"
  using sys_reach_some_pid_file [of dpid s] by (simp add: handler_body_def)

theorem device_error_kills_daemon_witness:
  "sys_reach 42 (sys_run 42 (sys_init None) [Boot, Model_loaded True, Signal SIGUSR1]) \<and> valid_pid 42 \<and>
   status (sys_run 42 (sys_init None) [Boot, Model_loaded True, Signal SIGUSR1]) = Alive \<and>
   pc (sys_run 42 (sys_init None) [Boot, Model_loaded True, Signal SIGUSR1]) = In_handler \<and>
   pid_file (sys_run 42 (sys_init None) [Boot, Model_loaded True, Signal SIGUSR1]) \<noteq> None \<and>
   toggle_recording (dev_ok\<lparr>dev_open := False\<rparr>) (ctrl (sys_run 42 (sys_init None) [Boot, Model_loaded True, Signal SIGUSR1]))
     = Raised Device_Error (init_daemon\<lparr>state := RECORDING\<rparr>) \<and>
   status (sys_step 42 (sys_run 42 (sys_init None) [Boot, Model_loaded True, Signal SIGUSR1])
             (Handler_body (dev_ok\<lparr>dev_open := False\<rparr>))) = Exited 1 \<and>
   pid_file (sys_step 42 (sys_run 42 (sys_init None) [Boot, Model_loaded True, Signal SIGUSR1])
             (Handler_body (dev_ok\<lparr>dev_open := False\<rparr>))) = Some (py_str_int 42)"
proof -
  let ?s = "sys_run 42 (sys_init None) [Boot, Model_loaded True, Signal SIGUSR1]"
  have r: "sys_reach 42 ?s" by (rule sys_run_reach [OF sys_reach.init])
  have h: "status ?s = Alive" "pc ?s = In_handler" "pid_file ?s \<noteq> None"
    "toggle_recording (dev_ok\<lparr>dev_open := False\<rparr>) (ctrl ?s) = Raised Device_Error (init_daemon\<lparr>state := RECORDING\<rparr>)"
    by (simp_all add: sys_eval ctrl_eval)
  have v: "valid_pid 42" by (simp add: valid_pid_def PID_MAX_def)
  show ?thesis using device_error_kills_daemon [OF r v h] r v h by simp
qed

text \<open>
  C24.  The process-control file is written before the model is loaded and the
  handlers are installed: any signal that arrives during the load (a toggle sent as
  soon as the file appears, or a termination request) ends the daemon by the default
  disposition and leaves the file in place.
\<close>

theorem signal_during_load_kills:
  "sys_reach dpid s \<Longrightarrow> valid_pid dpid \<Longrightarrow> status s = Alive \<Longrightarrow> pc s = Loading_model \<Longrightarrow>
   status (sys_step dpid s (Signal sg)) = Killed_by_signal \<and>
   pid_file (sys_step dpid s (Signal sg)) = Some (py_str_int dpid)"
  using sys_reach_loading_pid_file [of dpid s] by (simp add: deliver_def)

theorem signal_during_load_kills_witness:
  "sys_reach 42 (sys_run 42 (sys_init None) [Boot]) \<and> valid_pid 42 \<and>
   status (sys_run 42 (sys_init None) [Boot]) = Alive \<and> pc (sys_run 42 (sys_init None) [Boot]) = Loading_model \<and>
   status (sys_step 42 (sys_run 42 (sys_init None) [Boot]) (Signal SIGUSR1)) = Killed_by_signal \<and>
   pid_file (sys_step 42 (sys_run 42 (sys_init None) [Boot]) (Signal SIGUSR1)) = Some (py_str_int 42)"
proof -
  let ?s = "sys_run 42 (sys_init None) [Boot]"
  have r: "sys_reach 42 ?s" by (rule sys_run_reach [OF sys_reach.init])
  have h: "status ?s = Alive" "pc ?s = Loading_model" by (simp_all add: sys_eval)
  have v: "valid_pid 42" by (simp add: valid_pid_def PID_MAX_def)
  show ?thesis using signal_during_load_kills [OF r v h, of SIGUSR1] r v h by simp
qed

text \<open>
  C25.  A second toggle signal that arrives while the handler holds \<open>state_lock\<close>
  blocks the main thread for good: from then on no event but a termination signal
  changes that, the recording state never changes again (a recording in progress is
  never stopped, a finished transcription never returns to Idle), and toggles are lost.
\<close>

theorem nested_toggle_deadlock:
  assumes "status s = Alive" and "pc s = Blocked_on_lock" and "list_all no_term_signal es"
  shows "status (sys_run dpid s es) = Alive \<and> pc (sys_run dpid s es) = Blocked_on_lock
         \<and> state (ctrl (sys_run dpid s es)) = state (ctrl s)"
  using assms
proof (induction es arbitrary: s)
  case (Cons e es)
  from blocked_step [OF Cons.prems(1,2), of e dpid] Cons.prems(3)
  have "status (sys_step dpid s e) = Alive" "pc (sys_step dpid s e) = Blocked_on_lock"
    "state (ctrl (sys_step dpid s e)) = state (ctrl s)" by simp_all
  with Cons.IH [of "sys_step dpid s e"] Cons.prems(3) show ?case by simp
qed simp

theorem nested_toggle_deadlock_witness:
  "status (sys_run 42 (sys_init None) [Boot, Model_loaded True, Signal SIGUSR1, Signal SIGUSR1]) = Alive \<and>
   pc (sys_run 42 (sys_init None) [Boot, Model_loaded True, Signal SIGUSR1, Signal SIGUSR1]) = Blocked_on_lock \<and>
   list_all no_term_signal [Signal SIGUSR1, Handler_body dev_ok, Run_trigger (os_with 7 []), Ctrl (Task_finish 0)] \<and>
   pc (sys_run 42 (sys_run 42 (sys_init None) [Boot, Model_loaded True, Signal SIGUSR1, Signal SIGUSR1])
        [Signal SIGUSR1, Handler_body dev_ok, Run_trigger (os_with 7 []), Ctrl (Task_finish 0)]) = Blocked_on_lock"
proof -
  let ?s = "sys_run 42 (sys_init None) [Boot, Model_loaded True, Signal SIGUSR1, Signal SIGUSR1]"
  have h: "status ?s = Alive" "pc ?s = Blocked_on_lock" by (simp_all add: sys_eval)
  have l: "list_all no_term_signal [Signal SIGUSR1, Handler_body dev_ok, Run_trigger (os_with 7 []), Ctrl (Task_finish 0)]"
    by (simp add: no_term_signal_def)
  show ?thesis using nested_toggle_deadlock [OF h l, of 42] h l by blast
qed

text \<open>
  C26.  Once the handlers are installed, \<open>SIGINT\<close> or \<open>SIGTERM\<close> runs \<open>cleanup\<close>,
  which deletes the process-control file.  Outside the cue of the toggle handler the
  daemon then exits with status 0, also while the main thread is in the handler or
  blocked in it; during the cue (\<open>sd.play\<close>, or a nested handler blocked there) the
  \<open>SystemExit\<close> is swallowed by \<open>beep\<close>'s bare \<open>except\<close> and the daemon lives on
  in the rest of the handler.
\<close>

theorem term_signal_cleanup:
  "status s = Alive \<Longrightarrow> pc s \<noteq> Booting \<Longrightarrow> pc s \<noteq> Loading_model \<Longrightarrow> sg \<noteq> SIGUSR1 \<Longrightarrow>
   sys_step dpid s (Signal sg) =
     (if pc s = Playing_cue \<or> pc s = Blocked_in_cue then s\<lparr>pid_file := None, pc := After_cue\<rparr>
      else s\<lparr>pid_file := None, status := Exited 0\<rparr>)"
  by (cases "pc s") (simp_all add: deliver_def cleanup_def cleanup_in_cue_def)

theorem term_signal_cleanup_witness:
  "status (sys_run 42 (sys_init None) [Boot, Model_loaded True, Signal SIGUSR1, Handler_body dev_ok]) = Alive \<and>
   pc (sys_run 42 (sys_init None) [Boot, Model_loaded True, Signal SIGUSR1, Handler_body dev_ok]) \<noteq> Booting \<and>
   pc (sys_run 42 (sys_init None) [Boot, Model_loaded True, Signal SIGUSR1, Handler_body dev_ok]) \<noteq> Loading_model \<and>
   SIGTERM \<noteq> SIGUSR1 \<and>
   pid_file (sys_step 42 (sys_run 42 (sys_init None) [Boot, Model_loaded True, Signal SIGUSR1, Handler_body dev_ok])
     (Signal SIGTERM)) = None \<and>
   status (sys_step 42 (sys_run 42 (sys_init None) [Boot, Model_loaded True, Signal SIGUSR1, Handler_body dev_ok])
     (Signal SIGTERM)) = Alive \<and>
   status (sys_step 42 (sys_run 42 (sys_init None) [Boot, Model_loaded True]) (Signal SIGTERM)) = Exited 0"
proof -
  let ?S = "\<lparr>ctrl = init_daemon\<lparr>state := RECORDING, stream := Some Started, beeps := [(880, 8 / 100)]\<rparr>,
             pid_file = Some (py_str_int 42), status = Alive, pc = Playing_cue\<rparr>"
  let ?T = "\<lparr>ctrl = init_daemon, pid_file = Some (py_str_int 42), status = Alive, pc = Serving\<rparr>"
  have 1: "sys_step 42 ?S (Signal SIGTERM) = ?S\<lparr>pid_file := None, pc := After_cue\<rparr>"
    using term_signal_cleanup [of ?S SIGTERM 42] by simp
  have 2: "sys_step 42 ?T (Signal SIGTERM) = ?T\<lparr>pid_file := None, status := Exited 0\<rparr>"
    using term_signal_cleanup [of ?T SIGTERM 42] by simp
  show ?thesis unfolding sys_first_toggle sys_started using 1 2 by simp
qed

text \<open>
  C14.  A termination signal during the toggle handler's cue orphans the daemon: the
  file is deleted, the \<open>SystemExit\<close> is swallowed, and once the handler returns the
  daemon is alive and serving with its recording state as before, but without its
  file.  Every later run of the trigger reports that the daemon is not running and
  exits with status 1, and no sequence of trigger runs ever toggles it again; the
  specification has \<open>SIGINT\<close>/\<open>SIGTERM\<close> stop the daemon.
\<close>

theorem swallowed_exit_orphans_daemon:
  assumes "status s = Alive" and "pc s = Playing_cue \<or> pc s = Blocked_in_cue" and "sg \<noteq> SIGUSR1"
  shows "status (sys_run dpid s [Signal sg, Handler_return]) = Alive
         \<and> pc (sys_run dpid s [Signal sg, Handler_return]) = Serving
         \<and> pid_file (sys_run dpid s [Signal sg, Handler_return]) = None
         \<and> ctrl (sys_run dpid s [Signal sg, Handler_return]) = ctrl s
         \<and> exit_how (send_signal (sys_os dpid os (sys_run dpid s [Signal sg, Handler_return]))
                      (pid_file (sys_run dpid s [Signal sg, Handler_return]))) = Exit_status 1
         \<and> (\<forall>oss. sys_run dpid (sys_run dpid s [Signal sg, Handler_return]) (map Run_trigger oss)
                 = sys_run dpid s [Signal sg, Handler_return])"
proof -
  have r: "sys_run dpid s [Signal sg, Handler_return] = s\<lparr>pid_file := None, pc := Serving\<rparr>"
    using assms by (auto simp: deliver_def cleanup_in_cue_def handler_return_def)
  then have "pid_file (sys_run dpid s [Signal sg, Handler_return]) = None" by simp
  with sys_run_triggers_no_file show ?thesis
    unfolding r using assms(1) by (simp add: send_signal_def)
qed

theorem swallowed_exit_orphans_daemon_witness:
  "status (sys_run 42 (sys_init None) [Boot, Model_loaded True, Signal SIGUSR1, Handler_body dev_ok]) = Alive \<and>
   pc (sys_run 42 (sys_init None) [Boot, Model_loaded True, Signal SIGUSR1, Handler_body dev_ok]) = Playing_cue \<and>
   SIGINT \<noteq> SIGUSR1 \<and>
   status (sys_run 42 (sys_run 42 (sys_init None) [Boot, Model_loaded True, Signal SIGUSR1, Handler_body dev_ok])
     [Signal SIGINT, Handler_return]) = Alive \<and>
   pid_file (sys_run 42 (sys_run 42 (sys_init None) [Boot, Model_loaded True, Signal SIGUSR1, Handler_body dev_ok])
     [Signal SIGINT, Handler_return]) = None"
proof -
  let ?S = "\<lparr>ctrl = init_daemon\<lparr>state := RECORDING, stream := Some Started, beeps := [(880, 8 / 100)]\<rparr>,
             pid_file = Some (py_str_int 42), status = Alive, pc = Playing_cue\<rparr>"
  have h: "status ?S = Alive" "pc ?S = Playing_cue \<or> pc ?S = Blocked_in_cue" "SIGINT \<noteq> SIGUSR1" by simp_all
  from swallowed_exit_orphans_daemon [OF h, of 42 "os_with 7 []"]
  have "status (sys_run 42 ?S [Signal SIGINT, Handler_return]) = Alive"
    "pid_file (sys_run 42 ?S [Signal SIGINT, Handler_return]) = None" by simp_all
  then show ?thesis unfolding sys_first_toggle by simp
qed



end
