(* ===== verification/Concurrent_Trigger.thy ===== *)
theory Concurrent_Trigger
  imports Daemon_Process
begin

text \<open>
  The trigger as a process running beside the daemon.  \<open>Run_trigger\<close> in
  \<open>Daemon_Process\<close> runs \<open>talktype_toggle.py\<close> in one step; here each of its
  statements that touches the file system or another process is a step of its own, so
  that the daemon's events interleave with them, as they do between two processes.
  The world holds the daemon process, the state of the directory \<open>~/.cache\<close> and
  the position of the trigger:
  \<^item> \<open>T_import\<close>: \<open>STATE_FILE.parent.mkdir(exist_ok=True)\<close> at import time
    (toggle lines 11--12), which raises \<open>FileExistsError\<close> when \<open>~/.cache\<close> is not
    a directory;
  \<^item> \<open>T_exists\<close>: \<open>daemon_pid_file.exists()\<close> (line 18);
  \<^item> \<open>T_read\<close>: \<open>read_text().strip()\<close> and \<open>int()\<close> (line 23); the file may be gone;
  \<^item> \<open>T_kill pid\<close>: \<open>os.kill\<close> (line 26) over the process table of the moment;
  \<^item> \<open>T_unlink\<close>: \<open>daemon_pid_file.unlink()\<close> after \<open>ProcessLookupError\<close> (line 30);
  \<^item> \<open>T_exit\<close>: the trigger has ended.
  The daemon's \<open>main\<close> also creates \<open>~/.cache\<close> (daemon line 152) before writing its
  file, and \<open>write_text\<close> (line 153) first opens the file for writing, which empties
  it, then writes the identifier: \<open>main_mkdir\<close> is the directory and the opening
  (\<open>writing\<close> is set while the file is empty), \<open>W_write_pid\<close> the write, together
  the start-up step of \<open>Daemon_Process\<close>.
  The other daemon events are those of \<open>sys_step\<close>; an atomic \<open>Run_trigger\<close> does
  not occur in this world, whose only trigger is the one modelled here.
\<close>

datatype cache_st = Cache_absent | Cache_dir | Cache_file

text \<open>\<open>Path.mkdir(exist_ok=True)\<close> on \<open>~/.cache\<close>; the home directory exists.\<close>

definition mkdir_exist_ok :: "cache_st \<Rightarrow> py_exc + cache_st" where
  "mkdir_exist_ok c = (case c of Cache_file \<Rightarrow> Inl FileExistsError | _ \<Rightarrow> Inr Cache_dir)"

datatype trig_pc = T_import | T_exists | T_read | T_kill int | T_unlink | T_exit trig_exit

record world =
  proc :: sys
  cache :: cache_st
  trig :: trig_pc
  writing :: bool

definition world_init :: "cache_st \<Rightarrow> string option \<Rightarrow> world" where
  "world_init c pf = \<lparr>proc = sys_init pf, cache = c, trig = T_import, writing = False\<rparr>"

text \<open>\<open>main\<close>'s \<open>PID_FILE.parent.mkdir(exist_ok=True)\<close> (line 152), then the opening
  of the file by \<open>write_text\<close> (line 153), which leaves it empty; an exception of
  \<open>mkdir\<close> is uncaught and ends the daemon with status 1.  The write itself follows as
  the event \<open>W_write_pid\<close>.\<close>

definition main_mkdir :: "world \<Rightarrow> world" where
  "main_mkdir w =
     (if status (proc w) = Alive \<and> pc (proc w) = Booting \<and> \<not> writing w then
        (case mkdir_exist_ok (cache w) of
           Inl e \<Rightarrow> w\<lparr>proc := (proc w)\<lparr>status := Exited 1\<rparr>\<rparr>
         | Inr c \<Rightarrow> w\<lparr>cache := c, proc := (proc w)\<lparr>pid_file := Some []\<rparr>, writing := True\<rparr>)
      else w)"

text \<open>One statement of the trigger, in the world as it is at that moment.\<close>

fun trig_step :: "int \<Rightarrow> os_env \<Rightarrow> trig_pc \<Rightarrow> world \<Rightarrow> world" where
  "trig_step dpid os T_import w =
     (case mkdir_exist_ok (cache w) of
        Inl e \<Rightarrow> w\<lparr>trig := T_exit (Uncaught e)\<rparr>
      | Inr c \<Rightarrow> w\<lparr>cache := c, trig := T_exists\<rparr>)"
| "trig_step dpid os T_exists w =
     (if pid_file (proc w) = None then w\<lparr>trig := T_exit (Exit_status 1)\<rparr> else w\<lparr>trig := T_read\<rparr>)"
| "trig_step dpid os T_read w =
     (case pid_file (proc w) of
        None \<Rightarrow> w\<lparr>trig := T_exit (Uncaught FileNotFoundError)\<rparr>
      | Some text \<Rightarrow>
          (case py_int (py_strip text) of
             Inl e \<Rightarrow> w\<lparr>trig := T_exit (Uncaught e)\<rparr>
           | Inr pid \<Rightarrow> w\<lparr>trig := T_kill pid\<rparr>))"
| "trig_step dpid os (T_kill pid) w =
     (case os_kill (sys_os dpid os (proc w)) pid of
        Inr ts \<Rightarrow>
          w\<lparr>proc := (if status (proc w) = Alive \<and> dpid \<in> set ts then deliver SIGUSR1 (proc w) else proc w),
            trig := T_exit (if self_pid os \<in> set ts then Killed_by_SIGUSR1 else Exit_status 0)\<rparr>
      | Inl ProcessLookupError \<Rightarrow> w\<lparr>trig := T_unlink\<rparr>
      | Inl e \<Rightarrow> w\<lparr>trig := T_exit (Uncaught e)\<rparr>)"
| "trig_step dpid os T_unlink w =
     (case pid_file (proc w) of
        None \<Rightarrow> w\<lparr>trig := T_exit (Uncaught FileNotFoundError)\<rparr>
      | Some text \<Rightarrow> w\<lparr>proc := (proc w)\<lparr>pid_file := None\<rparr>, trig := T_exit (Exit_status 1)\<rparr>)"
| "trig_step dpid os (T_exit x) w = w"

datatype world_event = W_sys sys_event | W_write_pid | W_trig os_env

fun world_step :: "int \<Rightarrow> world \<Rightarrow> world_event \<Rightarrow> world" where
  "world_step dpid w (W_trig os) = trig_step dpid os (trig w) w"
| "world_step dpid w (W_sys Boot) = main_mkdir w"
| "world_step dpid w W_write_pid =
     (if writing w \<and> status (proc w) = Alive then w\<lparr>proc := main_write_pid dpid (proc w), writing := False\<rparr> else w)"
| "world_step dpid w (W_sys (Run_trigger os)) = w"
| "world_step dpid w (W_sys e) = w\<lparr>proc := sys_step dpid (proc w) e\<rparr>"

fun world_run :: "int \<Rightarrow> world \<Rightarrow> world_event list \<Rightarrow> world" where
  "world_run dpid w [] = w"
| "world_run dpid w (e # es) = world_run dpid (world_step dpid w e) es"

subsection \<open>Library\<close>

lemma sys_pid_file_id: "pid_file s = x \<Longrightarrow> s\<lparr>pid_file := x\<rparr> = s"
  by (cases s) simp

lemma world_run_append: "world_run dpid w (xs @ ys) = world_run dpid (world_run dpid w xs) ys"
  by (induction xs arbitrary: w) simp_all

lemmas world_eval = world_init_def main_mkdir_def mkdir_exist_ok_def

text \<open>The trigger run alone, statement by statement, as the atomic step of
  \<open>Daemon_Process\<close> describes it.\<close>

lemma trig_steps_atomic:
  assumes "cache w \<noteq> Cache_file" and "trig w = T_import"
  shows "world_run dpid w (replicate 5 (W_trig os)) =
           w\<lparr>proc := run_trigger dpid os (proc w), cache := Cache_dir,
             trig := T_exit (exit_how (send_signal (sys_os dpid os (proc w)) (pid_file (proc w))))\<rparr>"
proof (cases "pid_file (proc w)")
  case None
  with assms show ?thesis
    by (simp add: world_eval numeral_eq_Suc run_trigger_def send_signal_def sys_pid_file_id
             split: cache_st.splits)
next
  case (Some contents)
  show ?thesis
  proof (cases "py_int contents")
    case (Inl e)
    with Some assms show ?thesis
      by (simp add: world_eval numeral_eq_Suc run_trigger_def send_signal_def sys_pid_file_id
               split: cache_st.splits)
  next
    case (Inr pid)
    let ?w3 = "w\<lparr>cache := Cache_dir, trig := T_kill pid\<rparr>"
    have w3: "world_run dpid w (replicate 3 (W_trig os)) = ?w3"
      using Some Inr assms by (simp add: world_eval numeral_eq_Suc split: cache_st.splits)
    have r: "world_run dpid w (replicate 5 (W_trig os)) = world_run dpid ?w3 [W_trig os, W_trig os]"
      using w3 world_run_append [of dpid w "replicate 3 (W_trig os)" "[W_trig os, W_trig os]"]
      by (simp add: numeral_eq_Suc)
    show ?thesis
    proof (cases "os_kill (sys_os dpid os (proc w)) pid")
      case (Inr ts)
      with Some \<open>py_int contents = Inr pid\<close> show ?thesis
        unfolding r by (simp add: run_trigger_def send_signal_def sys_pid_file_id Let_def)
    next
      case (Inl e)
      with Some \<open>py_int contents = Inr pid\<close> show ?thesis
        unfolding r by (cases e) (simp_all add: run_trigger_def send_signal_def sys_pid_file_id Let_def)
    qed
  qed
qed

subsection \<open>Properties of the trigger beside the daemon\<close>

text \<open>
  C16.  A trigger that has read a stale identifier deletes the file of a daemon that
  started in the meantime: the file still names a dead process when the trigger reads
  it, the new daemon then creates and writes its file and installs its handlers, and the
  trigger's \<open>os.kill\<close> of the old identifier fails, so it unlinks the file it believes
  stale.  The daemon lives on serving, with no file: every later trigger run reports
  that the daemon is not running.
\<close>

theorem stale_trigger_deletes_live_file:
  assumes "valid_pid dpid" and "py_int contents = Inr old" and "valid_pid old" and "old \<noteq> dpid"
    and "\<not> proc_exists os old"
  shows "status (proc (world_run dpid (world_init Cache_dir (Some contents))
            [W_trig os, W_trig os, W_trig os, W_sys Boot, W_write_pid, W_sys (Model_loaded True), W_trig os, W_trig os])) = Alive
         \<and> pc (proc (world_run dpid (world_init Cache_dir (Some contents))
            [W_trig os, W_trig os, W_trig os, W_sys Boot, W_write_pid, W_sys (Model_loaded True), W_trig os, W_trig os])) = Serving
         \<and> pid_file (proc (world_run dpid (world_init Cache_dir (Some contents))
            [W_trig os, W_trig os, W_trig os, W_sys Boot, W_write_pid, W_sys (Model_loaded True), W_trig os, W_trig os])) = None
         \<and> trig (world_run dpid (world_init Cache_dir (Some contents))
            [W_trig os, W_trig os, W_trig os, W_sys Boot, W_write_pid, W_sys (Model_loaded True), W_trig os, W_trig os])
             = T_exit (Exit_status 1)
         \<and> send_signal os' None = \<lparr>exit_how = Exit_status 1, pid_file_after = None, signal_sent = None\<rparr>"
proof -
  have k: "os_kill (sys_os dpid os s) old = Inl ProcessLookupError" if "status s = Alive" for s
    using assms(3-5) that by (auto simp: os_kill_def sys_os_def valid_pid_def proc_exists_def)
  show ?thesis
    using assms(2) k
    by (simp add: world_eval sys_init_def main_write_pid_def main_load_model_def send_signal_def)
qed

theorem stale_trigger_deletes_live_file_witness:
  "valid_pid 42 \<and> py_int ''4242'' = Inr 4242 \<and> valid_pid 4242 \<and> (4242::int) \<noteq> 42 \<and>
   \<not> proc_exists (os_with 7 []) 4242 \<and>
   pid_file (proc (world_run 42 (world_init Cache_dir (Some ''4242''))
     [W_trig (os_with 7 []), W_trig (os_with 7 []), W_trig (os_with 7 []), W_sys Boot, W_write_pid, W_sys (Model_loaded True),
      W_trig (os_with 7 []), W_trig (os_with 7 [])])) = None"
proof -
  have h: "valid_pid 42" "py_int ''4242'' = Inr 4242" "valid_pid 4242" "(4242::int) \<noteq> 42"
    "\<not> proc_exists (os_with 7 []) 4242"
    by (simp_all add: valid_pid_def PID_MAX_def py_simps os_with_def proc_exists_def)
  show ?thesis using stale_trigger_deletes_live_file [OF h, of "os_with 7 []"] h by blast
qed

text \<open>
  C17.  The file-system errors of both programs are uncaught.  A termination signal
  that reaches the daemon between the trigger's \<open>exists()\<close> and its \<open>read_text()\<close>
  deletes the file, and the trigger dies with \<open>FileNotFoundError\<close> (a traceback,
  status 1) instead of reporting that the daemon is not running.  When \<open>~/.cache\<close> is a
  regular file, the daemon's \<open>mkdir\<close> raises \<open>FileExistsError\<close> at start-up: it exits
  with status 1 without writing its file.  And a trigger that reads the file between the
  daemon's opening it and writing the identifier finds it empty: \<open>int('')\<close> raises
  an uncaught \<open>ValueError\<close>.
\<close>

theorem file_system_errors_uncaught:
  "(status (proc w) = Alive \<and> pc (proc w) = Serving \<and> pid_file (proc w) \<noteq> None \<and> trig w = T_exists \<longrightarrow>
      trig (world_run dpid w [W_trig os, W_sys (Signal SIGTERM), W_trig os]) = T_exit (Uncaught FileNotFoundError)
    \<and> status (proc (world_run dpid w [W_trig os, W_sys (Signal SIGTERM), W_trig os])) = Exited 0)
   \<and> (cache v = Cache_file \<and> status (proc v) = Alive \<and> pc (proc v) = Booting \<and> \<not> writing v \<longrightarrow>
      status (proc (world_step dpid v (W_sys Boot))) = Exited 1
    \<and> pid_file (proc (world_step dpid v (W_sys Boot))) = pid_file (proc v))
   \<and> (cache u \<noteq> Cache_file \<and> status (proc u) = Alive \<and> pc (proc u) = Booting \<and> \<not> writing u
       \<and> trig u = T_exists \<longrightarrow>
      trig (world_run dpid u [W_sys Boot, W_trig os, W_trig os]) = T_exit (Uncaught ValueError))"
  by (auto simp: world_eval deliver_def cleanup_def py_simps split: cache_st.splits)

theorem file_system_errors_uncaught_witness:
  "status (sys_run 42 (sys_init None) [Boot, Model_loaded True]) = Alive \<and>
   pc (sys_run 42 (sys_init None) [Boot, Model_loaded True]) = Serving \<and>
   pid_file (sys_run 42 (sys_init None) [Boot, Model_loaded True]) \<noteq> None \<and>
   trig (world_run 42 \<lparr>proc = sys_run 42 (sys_init None) [Boot, Model_loaded True], cache = Cache_dir, trig = T_exists, writing = False\<rparr>
     [W_trig (os_with 7 []), W_sys (Signal SIGTERM), W_trig (os_with 7 [])]) = T_exit (Uncaught FileNotFoundError) \<and>
   cache (world_init Cache_file None) = Cache_file \<and> status (proc (world_init Cache_file None)) = Alive \<and>
   pc (proc (world_init Cache_file None)) = Booting \<and> \<not> writing (world_init Cache_file None) \<and>
   status (proc (world_step 42 (world_init Cache_file None) (W_sys Boot))) = Exited 1 \<and>
   cache (world_init Cache_dir None\<lparr>trig := T_exists\<rparr>) \<noteq> Cache_file \<and>
   \<not> writing (world_init Cache_dir None\<lparr>trig := T_exists\<rparr>) \<and>
   trig (world_run 42 (world_init Cache_dir None\<lparr>trig := T_exists\<rparr>) [W_sys Boot, W_trig (os_with 7 []), W_trig (os_with 7 [])])
     = T_exit (Uncaught ValueError)"
proof -
  let ?w = "\<lparr>proc = sys_run 42 (sys_init None) [Boot, Model_loaded True], cache = Cache_dir, trig = T_exists, writing = False\<rparr>"
  have h: "status (proc ?w) = Alive \<and> pc (proc ?w) = Serving \<and> pid_file (proc ?w) \<noteq> None \<and> trig ?w = T_exists"
    by (simp add: sys_eval)
  have v: "cache (world_init Cache_file None) = Cache_file \<and> status (proc (world_init Cache_file None)) = Alive \<and>
      pc (proc (world_init Cache_file None)) = Booting \<and> \<not> writing (world_init Cache_file None)"
    by (simp add: world_init_def sys_init_def)
  have u: "cache (world_init Cache_dir None\<lparr>trig := T_exists\<rparr>) \<noteq> Cache_file \<and>
      status (proc (world_init Cache_dir None\<lparr>trig := T_exists\<rparr>)) = Alive \<and>
      pc (proc (world_init Cache_dir None\<lparr>trig := T_exists\<rparr>)) = Booting \<and>
      \<not> writing (world_init Cache_dir None\<lparr>trig := T_exists\<rparr>) \<and> trig (world_init Cache_dir None\<lparr>trig := T_exists\<rparr>) = T_exists"
    by (simp add: world_init_def sys_init_def)
  from file_system_errors_uncaught [of ?w 42 "os_with 7 []" "world_init Cache_file None"
      "world_init Cache_dir None\<lparr>trig := T_exists\<rparr>"] h v u
  show ?thesis by simp
qed

end
