(* ===== verification/Mic_Test.thy ===== *)
theory Mic_Test
  imports Speech_Gate
begin

text \<open>
  The microphone diagnostic \<open>src/test_mic.py\<close>: it records \<open>DURATION\<close> seconds with
  \<open>sd.rec\<close> (lines 7--8, 20--24), prints the peak amplitude \<open>np.max(np.abs(audio))\<close>
  (line 29) and classifies it (lines 33--38): below 0.001 "very low", below 0.01
  "low", otherwise "captured successfully".  The recording itself is external; the
  model is the classification of a given buffer.  numpy's \<open>max\<close> of an empty array
  raises \<open>ValueError\<close>.  The verdicts are ordered from worst to best
  (an instance of \<open>linorder\<close>), so that the library's order reasoning applies.
\<close>

definition MIC_SAMPLE_RATE :: nat where
  "MIC_SAMPLE_RATE = 16000"

definition DURATION :: nat where
  "DURATION = 3"

datatype mic_level = Very_low | Low | Captured

definition verdict_rank :: "mic_level \<Rightarrow> nat" where
  "verdict_rank v = (case v of Very_low \<Rightarrow> 0 | Low \<Rightarrow> 1 | Captured \<Rightarrow> 2)"

instantiation mic_level :: linorder
begin

definition less_eq_mic_level :: "mic_level \<Rightarrow> mic_level \<Rightarrow> bool" where
  "less_eq_mic_level v w \<longleftrightarrow> verdict_rank v \<le> verdict_rank w"

definition less_mic_level :: "mic_level \<Rightarrow> mic_level \<Rightarrow> bool" where
  "less_mic_level v w \<longleftrightarrow> verdict_rank v < verdict_rank w"

instance
proof
  fix x y z :: mic_level
  show "x < y \<longleftrightarrow> x \<le> y \<and> \<not> y \<le> x" by (auto simp: less_eq_mic_level_def less_mic_level_def)
  show "x \<le> x" by (simp add: less_eq_mic_level_def)
  show "x \<le> y \<Longrightarrow> y \<le> z \<Longrightarrow> x \<le> z" by (simp add: less_eq_mic_level_def)
  show "x \<le> y \<Longrightarrow> y \<le> x \<Longrightarrow> x = y"
    by (cases x; cases y) (simp_all add: less_eq_mic_level_def verdict_rank_def)
  show "x \<le> y \<or> y \<le> x" by (auto simp: less_eq_mic_level_def)
qed

end

text \<open>\<open>np.max(np.abs(audio))\<close>.\<close>

definition max_amplitude :: "audio \<Rightarrow> py_exc + real" where
  "max_amplitude a = (if a = [] then Inl ValueError else Inr (Max (set (map abs a))))"

definition mic_verdict :: "audio \<Rightarrow> py_exc + mic_level" where
  "mic_verdict a =
     (case max_amplitude a of
        Inl e \<Rightarrow> Inl e
      | Inr m \<Rightarrow> Inr (if m < 1 / 1000 then Very_low else if m < 1 / 100 then Low else Captured))"

text \<open>The script: \<open>sd.rec(int(DURATION * SAMPLE_RATE), ...)\<close> and \<open>sd.wait()\<close>
  (lines 20--24), then the level check of the recorded buffer (lines 29--38).  The device
  is a parameter: given the number of frames it yields the samples or raises.  The
  statistics the script prints (lines 27--31) are output only.\<close>

definition test_mic :: "(nat \<Rightarrow> py_exc + audio) \<Rightarrow> py_exc + mic_level" where
  "test_mic rec =
     (case rec (DURATION * MIC_SAMPLE_RATE) of
        Inl e \<Rightarrow> Inl e
      | Inr audio \<Rightarrow> mic_verdict audio)"

subsection \<open>Library\<close>

lemma abs_le_max_amplitude:
  "max_amplitude a = Inr m \<Longrightarrow> x \<in> set a \<Longrightarrow> \<bar>x\<bar> \<le> m"
  by (auto simp: max_amplitude_def split: if_splits)

lemma sum_squares_le_peak:
  "(\<forall>x\<in>set a. \<bar>x\<bar> \<le> m) \<Longrightarrow> sum_squares a \<le> real (length a) * m\<^sup>2"
proof (induction a)
  case (Cons x a)
  then have "\<bar>x\<bar>\<^sup>2 \<le> m\<^sup>2" using power_mono [of "\<bar>x\<bar>" m 2] by simp
  then have "x\<^sup>2 \<le> m\<^sup>2" by simp
  with Cons show ?case by (simp add: sum_squares_def algebra_simps)
qed (simp add: sum_squares_def)

text \<open>The energy the daemon's gate computes never exceeds the peak amplitude.\<close>

lemma has_speech_below_peak:
  assumes "max_amplitude a = Inr m" and "has_speech a t" and "0 \<le> t"
  shows "t < m"
proof -
  from assms(2,3) have ne: "a \<noteq> []" and lt: "t\<^sup>2 * real (length a) < sum_squares a"
    by (simp_all add: has_speech_sq)
  have "sum_squares a \<le> real (length a) * m\<^sup>2"
    using abs_le_max_amplitude [OF assms(1)] by (intro sum_squares_le_peak) blast
  with lt have "real (length a) * t\<^sup>2 < real (length a) * m\<^sup>2" by (simp add: mult.commute)
  moreover from ne have "0 < real (length a)" by simp
  ultimately have "t\<^sup>2 < m\<^sup>2" by simp
  moreover have "0 \<le> m"
    using abs_le_max_amplitude [OF assms(1)] ne by (metis abs_ge_zero list.set_intros(1) neq_Nil_conv order_trans)
  ultimately show ?thesis using assms(3) by (simp add: power_less_imp_less_base)
qed

lemma mic_verdict_Inr:
  "max_amplitude a = Inr m \<Longrightarrow>
   mic_verdict a = Inr (if m < 1 / 1000 then Very_low else if m < 1 / 100 then Low else Captured)"
  by (simp add: mic_verdict_def)

text \<open>The peak of a buffer is below a bound exactly when every sample is.\<close>

lemma mic_verdict_list_all:
  "mic_verdict a =
     (if a = [] then Inl ValueError
      else Inr (if list_all (\<lambda>x. \<bar>x\<bar> < 1 / 1000) a then Very_low
                else if list_all (\<lambda>x. \<bar>x\<bar> < 1 / 100) a then Low else Captured))"
proof (cases "a = []")
  case False
  then have m: "Max (set (map abs a)) < c \<longleftrightarrow> list_all (\<lambda>x. \<bar>x\<bar> < c) a" for c :: real
    by (simp add: Max_less_iff list_all_iff)
  show ?thesis
    by (simp only: mic_verdict_def max_amplitude_def if_not_P [OF False] sum.case m)
qed (simp add: mic_verdict_def max_amplitude_def)

subsection \<open>Properties of the diagnostic and the daemon's gate\<close>

text \<open>
  C32.  Audio that the microphone test calls "very low" (peak below 0.001) is silence
  to the daemon: its energy is below the gate's threshold, and \<open>transcribe\<close> answers
  the empty text without calling the recognizer.
\<close>

theorem mic_very_low_is_silence:
  "mic_verdict a = Inr Very_low \<Longrightarrow> transcribe recog a = Inr []"
proof -
  assume v: "mic_verdict a = Inr Very_low"
  then obtain m where m: "max_amplitude a = Inr m" and lt: "m < 1 / 1000"
    by (auto simp: mic_verdict_def split: sum.splits if_splits)
  have "\<not> has_speech a speech_threshold"
  proof
    assume "has_speech a speech_threshold"
    from has_speech_below_peak [OF m this] have "speech_threshold < m"
      by (simp add: speech_threshold_def)
    with lt show False by (simp add: speech_threshold_def)
  qed
  then show ?thesis by (rule transcribe_gate_closed [OF disjI2])
qed

theorem mic_very_low_is_silence_witness:
  "mic_verdict (replicate 16000 (1 / 2000)) = Inr Very_low \<and>
   transcribe (\<lambda>a l. Inr [''hello'']) (replicate 16000 (1 / 2000)) = Inr []"
proof -
  have v: "mic_verdict (replicate 16000 (1 / 2000)) = Inr Very_low"
    by (simp add: mic_verdict_def max_amplitude_def)
  show ?thesis using mic_very_low_is_silence [OF v] v by simp
qed

text \<open>
  C33.  The converse fails, and exactly where: a three-second recording is reported
  as captured successfully by the microphone test and ignored by the daemon whatever
  the recognizer answers if and only if its peak reaches 0.01 while its sum of squares
  stays at most 1.2 (the gate's threshold 0.005 squared, times 48000 samples), as for
  one click of amplitude 0.5 in silence.
\<close>

theorem mic_captured_can_be_silence:
  assumes "length a = DURATION * MIC_SAMPLE_RATE"
  shows "(mic_verdict a = Inr Captured \<and> (\<forall>recog. transcribe recog a = Inr [])) \<longleftrightarrow>
         (1 / 100 \<le> Max (set (map abs a)) \<and> sum_squares a \<le> 6 / 5)"
proof -
  from assms have l: "length a = 48000" by (simp add: DURATION_def MIC_SAMPLE_RATE_def)
  then have ne: "a \<noteq> []" and nt: "\<not> too_short a" by auto
  have c: "mic_verdict a = Inr Captured \<longleftrightarrow> 1 / 100 \<le> Max (set (map abs a))"
    using ne by (simp add: mic_verdict_def max_amplitude_def)
  have s: "\<not> has_speech a speech_threshold \<longleftrightarrow> sum_squares a \<le> 6 / 5"
    using ne l by (simp add: has_speech_sq speech_threshold_def power2_eq_square not_less)
  show ?thesis using transcribe_silent_iff [OF nt] c s by simp
qed

theorem mic_captured_can_be_silence_witness:
  "length (replicate 47999 (0::real) @ [1 / 2]) = DURATION * MIC_SAMPLE_RATE \<and>
   mic_verdict (replicate 47999 0 @ [1 / 2]) = Inr Captured \<and>
   transcribe (\<lambda>a l. Inr [''hello'']) (replicate 47999 0 @ [1 / 2]) = Inr []"
proof -
  have l: "length (replicate 47999 (0::real) @ [1 / 2]) = DURATION * MIC_SAMPLE_RATE"
    by (simp add: DURATION_def MIC_SAMPLE_RATE_def)
  have m: "Max (set (map abs (replicate 47999 (0::real) @ [1 / 2]))) = 1 / 2"
    by simp
  have q: "sum_squares (replicate 47999 0 @ [1 / 2]) = 1 / 4"
    by (simp add: sum_squares_def power2_eq_square sum_list_replicate)
  from mic_captured_can_be_silence [OF l] m q l show ?thesis by simp
qed

text \<open>
  C34.  The classification is monotone in the peak amplitude: of two non-empty buffers,
  the one with the larger peak never gets the worse verdict.
\<close>

theorem mic_verdict_monotone:
  "max_amplitude a = Inr m1 \<Longrightarrow> max_amplitude b = Inr m2 \<Longrightarrow> m1 \<le> m2 \<Longrightarrow>
   \<exists>v w. mic_verdict a = Inr v \<and> mic_verdict b = Inr w \<and> v \<le> w"
  by (auto simp: mic_verdict_Inr less_eq_mic_level_def verdict_rank_def)

theorem mic_verdict_monotone_witness:
  "max_amplitude [1 / 200] = Inr (1 / 200) \<and> max_amplitude [- 1 / 20] = Inr (1 / 20) \<and>
   (1 / 200 :: real) \<le> 1 / 20 \<and>
   (\<exists>v w. mic_verdict [1 / 200] = Inr v \<and> mic_verdict [- 1 / 20] = Inr w \<and> v \<le> w)"
proof -
  have a: "max_amplitude [1 / 200] = Inr (1 / 200)" and b: "max_amplitude [- 1 / 20] = Inr (1 / 20)"
    by (simp_all add: max_amplitude_def)
  have "(1 / 200 :: real) \<le> 1 / 20" by simp
  with mic_verdict_monotone [OF a b] a b show ?thesis by blast
qed

text \<open>
  C40.  The diagnostic's verdict is the per-sample reference: it records
  \<open>DURATION * SAMPLE_RATE\<close> frames, a device error propagates, an empty recording
  raises \<open>ValueError\<close>, and otherwise the microphone is "very low" when every sample
  is below 0.001 in absolute value, "low" when every sample is below 0.01, and
  "captured successfully" as soon as one sample reaches 0.01.
\<close>

theorem test_mic_per_sample:
  "test_mic rec =
     (case rec (DURATION * MIC_SAMPLE_RATE) of
        Inl e \<Rightarrow> Inl e
      | Inr a \<Rightarrow>
          (if a = [] then Inl ValueError
           else Inr (if list_all (\<lambda>x. \<bar>x\<bar> < 1 / 1000) a then Very_low
                     else if list_all (\<lambda>x. \<bar>x\<bar> < 1 / 100) a then Low else Captured)))"
  by (simp add: test_mic_def mic_verdict_list_all split: sum.split)

end
