(* ===== verification/Spec2Isabelle.thy ===== *)
theory Spec2Isabelle
  imports Concurrent_Trigger Mic_Test
begin

text \<open>
  \<^bold>\<open>TalkType: a verification development.\<close>

  TalkType is a push-to-talk dictation helper.  A daemon (\<open>src/talktype_daemon.py\<close>)
  records the microphone between two \<open>SIGUSR1\<close> signals, transcribes the audio in a
  background thread with a Whisper model, and copies the text to the clipboard.  A
  trigger script (\<open>src/talktype_toggle.py\<close>) reads the daemon's process identifier
  from \<open>~/.cache/talktype_daemon.pid\<close> and sends the signal.  The parts and how they
  interact:
  \<^item> the recording controller: the globals \<open>state\<close>, \<open>audio_chunks\<close> and
    \<open>stream\<close>, changed by the signal handler \<open>toggle_recording\<close> (under
    \<open>state_lock\<close>), by the device's \<open>audio_callback\<close>, and by the background
    thread \<open>transcribe_and_paste\<close>, which resets the state under the lock;
  \<^item> the speech gate \<open>has_speech\<close>/\<open>transcribe\<close>, called by the thread;
  \<^item> the trigger \<open>send_signal\<close>, which talks to the daemon through the
    process-control file and \<open>os.kill\<close>;
  \<^item> external collaborators, not modelled beyond their observable outcomes: the audio
    device (\<open>sounddevice\<close>), the recognizer (\<open>faster_whisper\<close>), the clipboard
    (\<open>pyperclip\<close>), the console (\<open>print\<close>).

  \<^bold>\<open>Theories.\<close>
  \<^item> \<open>Talktype_Prelude\<close>: Python's \<open>str.strip\<close>, \<open>" ".join\<close>, \<open>str(int)\<close> and
    \<open>int(str)\<close> on 8-bit characters, the exceptions of the model, and their lemmas
    (\<open>int(str(i)) = i\<close>, \<open>strip\<close> leaves no whitespace at either end).
  \<^item> \<open>Speech_Gate\<close>: \<open>SAMPLE_RATE\<close>, \<open>LANGUAGE\<close>, \<open>MODEL\<close>, \<open>has_speech\<close> and
    \<open>transcribe\<close> (daemon lines 21--23, 80--93).  Samples are reals: the RMS energy is
    exact, \<open>float32\<close> rounding is not modelled.  The recognizer is a parameter.  The
    lemmas show when the recognizer is and is not called (C5--C7, C18); the code
    equation \<open>has_speech_code\<close> makes the gate executable without \<open>sqrt\<close>.
  \<^item> \<open>Controller\<close>: the record \<open>daemon\<close> (the three globals plus the observable
    effects: cues, clipboard writes and the background threads in flight), the
    operations \<open>beep\<close>, \<open>audio_callback\<close>, \<open>start_recording\<close>,
    \<open>stop_recording\<close>, \<open>paste_text\<close>, \<open>transcribe_and_paste\<close> (split into its
    \<open>try\<close> part and its \<open>finally\<close> clause) and \<open>toggle_recording\<close> (daemon lines
    28--139), each as the source writes it, a failing device call raising.  The
    machine \<open>ctrl_step\<close> interleaves toggles, audio blocks and the two phases of
    each background thread; \<open>ctrl_reach\<close> is its reachable states.  The invariant
    \<open>ctrl_inv\<close> (state, stream and threads agree; at most one thread) holds in every
    reachable state (C1), and the controller refines the specification's three-state
    machine \<open>abs_step\<close> (C2).  The functional behaviour of every branch of the
    handler and of the thread is proved (C3, C4, C8, C9, C12, C13, C15).  Runs of whole
    dictation sessions (\<open>session_events\<close>) show that no audio of one session leaks into
    the next (C36) and that a sequence of sessions writes one text per session to the
    clipboard, in order (C37); the background thread always completes (C38).
  \<^item> \<open>Trigger\<close>: \<open>os_kill\<close> and \<open>send_signal\<close> (toggle lines 14--31) over an
    operating system given as a parameter: the process table with process groups, the
    permission to signal, and the trigger's own identifier.  \<open>os_kill\<close> follows Linux
    \<open>kill(2)\<close> for positive, zero, -1 and other negative identifiers, and a signal the
    trigger sends to itself kills it.  Every exit path is proved (C10, C11, C19--C22,
    C31, C35).
  \<^item> \<open>Daemon_Process\<close>: the process around the controller (daemon lines 141--181):
    \<open>main\<close> (\<open>main_write_pid\<close>, \<open>main_load_model\<close>), \<open>cleanup\<close>, the signal
    dispositions before and after \<open>signal.signal\<close> (\<open>deliver\<close>), the two phases of
    the toggle handler (taking \<open>state_lock\<close>, then \<open>handler_body\<close>, which ends in
    the cue \<open>Playing_cue\<close> when it starts or stops a recording, then
    \<open>handler_return\<close>), \<open>cleanup\<close> run inside \<open>beep\<close>'s \<open>sd.play\<close>, whose
    \<open>SystemExit\<close> the bare \<open>except\<close> of line 45 swallows (\<open>cleanup_in_cue\<close>), the
    propagation of a handler's exception into the unguarded main loop, the other
    threads (\<open>ctrl_event\<close>), and one run of the trigger against the daemon
    (\<open>run_trigger\<close> over \<open>sys_os\<close>, in which the live daemon is a process of the
    user leading its own process group, and which toggles the daemon whenever it is
    among the recipients of the signal).  \<open>sys_step\<close> is one event of the whole
    system and \<open>sys_reach\<close> its reachable states from any previous contents of the
    file.  The invariant \<open>sys_inv\<close> (the controller is in a reachable state, and the
    file of a live daemon is absent or names it, and names it while the model loads)
    holds throughout.  The lemmas show how the daemon dies on a device error or an
    early signal, deadlocks on a nested toggle, and cleans up on a termination signal,
    except during the cue, where it survives without its file (C23--C26); that a
    termination signal during the cue orphans the daemon, which no trigger run reaches
    again (C14); and that such a signal is the only event after which a live daemon's
    file has changed (C39).
  \<^item> \<open>Concurrent_Trigger\<close>: the trigger as a process beside the daemon.  Each
    statement of \<open>talktype_toggle.py\<close> that touches \<open>~/.cache\<close>, the file or another
    process (the import-time \<open>mkdir\<close> of lines 11--12, \<open>exists()\<close>,
    \<open>read_text()\<close> and \<open>int()\<close>, \<open>os.kill\<close>, \<open>unlink()\<close>) is a step
    (\<open>trig_step\<close>), interleaved with the daemon's events in \<open>world_step\<close>; the
    daemon's own \<open>mkdir\<close> and the opening of the file by \<open>write_text\<close>, which empties
    it (lines 152--153), are \<open>main_mkdir\<close>, and the write of the identifier is the
    event \<open>W_write_pid\<close>.  Run alone the steps compute
    the atomic \<open>run_trigger\<close> of \<open>Daemon_Process\<close> (the lemma
    \<open>trig_steps_atomic\<close>), which justifies that model; interleaved, a trigger holding a stale identifier deletes a new daemon's file
    (C16), and a shutdown between \<open>exists()\<close> and \<open>read_text()\<close>, a
    \<open>~/.cache\<close> that is not a directory, or a read of the emptied file raise uncaught
    errors (C17).
  \<^item> \<open>Mic_Test\<close>: the microphone diagnostic \<open>src/test_mic.py\<close> as a function of
    its recording device (\<open>test_mic\<close>, lines 7--8, 20--38), its level classification
    with the order of verdicts, and how it relates to the daemon's gate: a "very low"
    buffer is silence to the daemon (C32), and a three-second "captured successfully"
    one is ignored exactly when its sum of squares stays at most 1.2 (C33); the verdict is monotone in the peak amplitude (C34) and equals the
    per-sample reference (C40).
  \<^item> \<open>Spec2Isabelle\<close> (this theory): the properties that span components: trigger
    and daemon agree on the file (C27), a crash's stale file is cleaned by the next
    trigger run (C28), the controller invariant holds in the running daemon and every
    event of the process makes at most one step of the specification's machine (C29), and
    a whole dictation session puts the recognized text on the clipboard (C30).

  \<^bold>\<open>Choices.\<close>  A toggle handler's body runs atomically, as it holds
  \<open>state_lock\<close> throughout; taking the lock is a step of its own in
  \<open>Daemon_Process\<close>, so that a signal can arrive in between.  The background
  thread's \<open>try\<close> part runs without the lock and is a separate step from its
  \<open>finally\<close> clause, which needs the lock; toggles may interleave between them.
  The operating system is a parameter: which processes exist, in which process groups,
  and which may be signalled.  The result of \<open>os.kill\<close> is the list of processes that
  received the signal; the daemon reacts to every run of the trigger whose list contains
  it, also through a broadcast.  Once written, the daemon's file holds its own positive
  identifier or is gone (\<open>sys_inv\<close>), so a broadcast reaches a daemon only from a file another
  program wrote (C21, C35, at the level of the trigger).  No loop of the code needs fuel: every
  operation is a non-recursive definition or a structural recursion, and the daemon's
  endless \<open>while True\<close> loop is the event relation \<open>sys_step\<close> itself.  A cue is
  the call of \<open>beep\<close> with its frequency and duration; the waveform it passes to
  \<open>sd.play\<close> is \<open>beep_wave\<close> (in \<open>Controller\<close>, on reals: its length, and
  no sample above the volume).  Console output is not modelled.

  \<^bold>\<open>Not modelled.\<close>  File-system failures other than those of
  \<open>Concurrent_Trigger\<close> (a missing home directory, a full disk or a permission error
  in \<open>write_text\<close> or \<open>read_text\<close>), the window between \<open>cleanup\<close>'s
  \<open>exists()\<close> and its \<open>unlink()\<close> (a trigger deleting the file there would make
  \<open>cleanup\<close> raise instead of exiting with status 0; the model runs \<open>cleanup\<close> in
  one step, as the signal handler does within the daemon), the failure to start a
  thread, the failure of \<open>sd.play\<close> itself (swallowed by the same \<open>except\<close>, with
  no effect on the state), the lines of the handler after the cue (printing, and the
  concatenation and start of the thread in the stopping branch, performed with the
  body; the thread does not run before the handler returns), console output, and the keyboard
  diagnostic \<open>src/test_keyboard.py\<close> (a \<open>pynput\<close> listener that only prints,
  with no state of the program).  The audio devices of the daemon and of
  \<open>test_mic.py\<close>, the recognizer and the clipboard are parameters: they are external
  libraries whose only effect on the program is what they return or raise.
  \<open>STATE_FILE\<close> of the trigger is never used.
  The \<open>float32\<close> rounding of the energy is not modelled: the model's energy is the
  exact root-mean-square of the samples read as reals, numpy's is computed with
  \<open>float32\<close> squares, pairwise \<open>float32\<close> summation and a \<open>float32\<close> square root,
  then compared with the double 0.005.  The two can differ in the last bits, so a buffer
  within rounding distance of the threshold (as in C18, whose sample value 0.005 has no
  exact \<open>float32\<close> representation) may be judged differently by the code.
\<close>

subsection \<open>A dictation session\<close>

text \<open>The events of one session: start-up, a trigger run that starts a recording (the
  handler's body, then its return after the cue), the audio blocks of the device, a
  trigger run that stops it, and the background thread.\<close>

definition dictation_session :: "os_env \<Rightarrow> audio list \<Rightarrow> recognizer \<Rightarrow> sys_event list" where
  "dictation_session os blocks recog =
     [Boot, Model_loaded True, Run_trigger os, Handler_body dev_ok, Handler_return]
     @ map (\<lambda>b. Ctrl (Frame b)) blocks
     @ [Run_trigger os, Handler_body dev_ok, Handler_return, Ctrl (Task_run 0 recog True), Ctrl (Task_finish 0)]"

subsection \<open>Properties spanning the components\<close>

lemma sys_run_append: "sys_run dpid s (xs @ ys) = sys_run dpid (sys_run dpid s xs) ys"
  by (induction xs arbitrary: s) simp_all

text \<open>
  C27.  Trigger and daemon agree on the process-control file: the trigger reads the
  path the daemon writes, and while the daemon is alive, past its first statement and
  has its file (which a termination signal during a cue deletes, C14), a run of the
  trigger (another process), whatever other processes exist, reads the
  daemon's own identifier, delivers \<open>SIGUSR1\<close> to it alone, keeps the file and exits
  with status 0; the daemon reacts as to any toggle signal.
\<close>

theorem trigger_reaches_live_daemon:
  assumes "sys_reach dpid s" and "valid_pid dpid" and "status s = Alive" and "pc s \<noteq> Booting"
    and "pid_file s \<noteq> None" and "self_pid os \<noteq> dpid"
  shows "daemon_pid_file home = PID_FILE home
         \<and> send_signal (sys_os dpid os s) (pid_file s) =
           \<lparr>exit_how = Exit_status 0, pid_file_after = Some (py_str_int dpid), signal_sent = Some [dpid]\<rparr>
         \<and> sys_step dpid s (Run_trigger os) = deliver SIGUSR1 s"
proof -
  from sys_reach_some_pid_file [OF assms(1-5)] have f: "pid_file s = Some (py_str_int dpid)" .
  with assms(2,3,6) show ?thesis
    by (simp add: send_signal_live_daemon run_trigger_live daemon_pid_file_def PID_FILE_def)
qed

theorem trigger_reaches_live_daemon_witness:
  "sys_reach 42 (sys_run 42 (sys_init (Some ''7'')) [Boot, Model_loaded True]) \<and> valid_pid 42 \<and>
   status (sys_run 42 (sys_init (Some ''7'')) [Boot, Model_loaded True]) = Alive \<and>
   pc (sys_run 42 (sys_init (Some ''7'')) [Boot, Model_loaded True]) \<noteq> Booting \<and>
   pid_file (sys_run 42 (sys_init (Some ''7'')) [Boot, Model_loaded True]) \<noteq> None \<and>
   self_pid (os_with 7 []) \<noteq> 42 \<and>
   sys_step 42 (sys_run 42 (sys_init (Some ''7'')) [Boot, Model_loaded True]) (Run_trigger (os_with 7 [])) =
     deliver SIGUSR1 (sys_run 42 (sys_init (Some ''7'')) [Boot, Model_loaded True])"
proof -
  let ?s = "sys_run 42 (sys_init (Some ''7'')) [Boot, Model_loaded True]"
  have r: "sys_reach 42 ?s" by (rule sys_run_reach [OF sys_reach.init])
  have h: "status ?s = Alive" "pc ?s \<noteq> Booting" "pid_file ?s \<noteq> None" by (simp_all add: sys_eval)
  have v: "valid_pid 42" by (simp add: valid_pid_def PID_MAX_def)
  have o: "self_pid (os_with 7 []) \<noteq> 42" by (simp add: os_with_def)
  from trigger_reaches_live_daemon [OF r v h o] r v h o show ?thesis by blast
qed

text \<open>
  C28.  After a device error has killed the daemon inside the toggle handler, the file
  it leaves behind is found by the next run of the trigger (when the identifier has not
  been reused): the trigger reports the stale file, deletes it and exits with status 1.
\<close>

theorem crash_then_trigger_cleans:
  assumes "sys_reach dpid s" and "valid_pid dpid" and "status s = Alive" and "pc s = In_handler"
    and "toggle_recording dev (ctrl s) = Raised e d" and "\<not> proc_exists os dpid"
  shows "exit_how (send_signal (sys_os dpid os (sys_step dpid s (Handler_body dev)))
                     (pid_file (sys_step dpid s (Handler_body dev)))) = Exit_status 1
         \<and> pid_file (sys_run dpid s [Handler_body dev, Run_trigger os]) = None"
proof -
  let ?s1 = "sys_step dpid s (Handler_body dev)"
  from assms(3,4,5) have s1: "status ?s1 = Exited 1" "pid_file ?s1 = pid_file s"
    by (simp_all add: handler_body_def)
  from sys_reach_pid_file [OF assms(1,2,3)] assms(4)
  have d: "pid_file s = None \<or> pid_file s = Some (py_str_int dpid)" by simp
  have "send_signal (sys_os dpid os ?s1) (pid_file ?s1) =
          \<lparr>exit_how = Exit_status 1, pid_file_after = None, signal_sent = None\<rparr>"
    using d
  proof (elim disjE)
    assume "pid_file s = None"
    with s1(2) show ?thesis by (simp add: send_signal_def)
  next
    assume f: "pid_file s = Some (py_str_int dpid)"
    have k: "os_kill (sys_os dpid os ?s1) dpid = Inl ProcessLookupError"
      using s1 assms(2,6) by (simp add: os_kill_def sys_os_def valid_pid_def)
    with s1(2) f show ?thesis by (simp add: send_signal_def py_int_py_str_int)
  qed
  then show ?thesis by (simp add: run_trigger_def Let_def)
qed

theorem crash_then_trigger_cleans_witness:
  "sys_reach 42 (sys_run 42 (sys_init None) [Boot, Model_loaded True, Signal SIGUSR1]) \<and> valid_pid 42 \<and>
   status (sys_run 42 (sys_init None) [Boot, Model_loaded True, Signal SIGUSR1]) = Alive \<and>
   pc (sys_run 42 (sys_init None) [Boot, Model_loaded True, Signal SIGUSR1]) = In_handler \<and>
   toggle_recording (dev_ok\<lparr>dev_open := False\<rparr>) (ctrl (sys_run 42 (sys_init None) [Boot, Model_loaded True, Signal SIGUSR1]))
     = Raised Device_Error (init_daemon\<lparr>state := RECORDING\<rparr>) \<and>
   \<not> proc_exists (os_with 7 []) 42 \<and>
   pid_file (sys_run 42 (sys_run 42 (sys_init None) [Boot, Model_loaded True, Signal SIGUSR1])
     [Handler_body (dev_ok\<lparr>dev_open := False\<rparr>), Run_trigger (os_with 7 [])]) = None"
proof -
  let ?s = "sys_run 42 (sys_init None) [Boot, Model_loaded True, Signal SIGUSR1]"
  have r: "sys_reach 42 ?s" by (rule sys_run_reach [OF sys_reach.init])
  have h: "status ?s = Alive" "pc ?s = In_handler"
    "toggle_recording (dev_ok\<lparr>dev_open := False\<rparr>) (ctrl ?s) = Raised Device_Error (init_daemon\<lparr>state := RECORDING\<rparr>)"
    by (simp_all add: sys_eval ctrl_eval)
  have o: "\<not> proc_exists (os_with 7 []) 42" by (simp add: os_with_def proc_exists_def)
  have "valid_pid 42" by (simp add: valid_pid_def PID_MAX_def)
  with crash_then_trigger_cleans [OF r this h o] r h o show ?thesis by blast
qed

text \<open>
  C29.  The controller's invariant holds inside the running daemon, whatever signals,
  device blocks, thread steps and trigger runs interleave: in particular at most one
  transcription thread is ever in flight.  And the daemon process refines the
  specification's machine: every event of the process (a signal, a handler body, a
  device block, a thread step, a trigger run) leaves the recording state as it is or
  makes one step of \<open>abs_step\<close>, also when the handler raises and the daemon dies.
\<close>

theorem daemon_ctrl_invariant:
  "sys_reach dpid s \<Longrightarrow> valid_pid dpid \<Longrightarrow> status s = Alive \<Longrightarrow>
   ctrl_inv (ctrl s) \<and> length (tasks (ctrl s)) \<le> 1 \<and>
   (\<forall>e. state (ctrl (sys_step dpid s e)) = state (ctrl s)
        \<or> (\<exists>a. state (ctrl (sys_step dpid s e)) = abs_step (state (ctrl s)) a))"
proof -
  assume "sys_reach dpid s" "valid_pid dpid" "status s = Alive"
  with sys_reach_inv [of dpid s] ctrl_reach_inv have "ctrl_inv (ctrl s)" by (simp add: sys_inv_def)
  with sys_step_refines [OF this \<open>status s = Alive\<close>] show ?thesis by (simp add: ctrl_inv_def)
qed

theorem daemon_ctrl_invariant_witness:
  "sys_reach 42 (sys_run 42 (sys_init None) [Boot, Model_loaded True, Signal SIGUSR1]) \<and> valid_pid 42 \<and>
   status (sys_run 42 (sys_init None) [Boot, Model_loaded True, Signal SIGUSR1]) = Alive \<and>
   ctrl_inv (ctrl (sys_run 42 (sys_init None) [Boot, Model_loaded True, Signal SIGUSR1])) \<and>
   length (tasks (ctrl (sys_run 42 (sys_init None) [Boot, Model_loaded True, Signal SIGUSR1]))) \<le> 1 \<and>
   (\<forall>e. state (ctrl (sys_step 42 (sys_run 42 (sys_init None) [Boot, Model_loaded True, Signal SIGUSR1]) e))
          = state (ctrl (sys_run 42 (sys_init None) [Boot, Model_loaded True, Signal SIGUSR1]))
        \<or> (\<exists>a. state (ctrl (sys_step 42 (sys_run 42 (sys_init None) [Boot, Model_loaded True, Signal SIGUSR1]) e))
          = abs_step (state (ctrl (sys_run 42 (sys_init None) [Boot, Model_loaded True, Signal SIGUSR1]))) a))"
proof -
  let ?s = "sys_run 42 (sys_init None) [Boot, Model_loaded True, Signal SIGUSR1]"
  have r: "sys_reach 42 ?s" by (rule sys_run_reach [OF sys_reach.init])
  have h: "status ?s = Alive" by (simp add: sys_eval)
  have "valid_pid 42" by (simp add: valid_pid_def PID_MAX_def)
  with daemon_ctrl_invariant [OF r this h] r h show ?thesis by blast
qed

text \<open>
  C30.  A whole dictation session works end to end: the daemon starts and loads its
  model, one trigger run starts a recording, the device delivers audio blocks, a second
  trigger run stops it, and the background thread runs to completion.  If the
  recognizer turns the concatenated blocks into a non-empty text, the clipboard holds
  exactly that text with a leading space, the daemon is back to Idle and serving, and
  the process-control file still names it.
\<close>

theorem dictation_session_delivers_text:
  assumes "valid_pid dpid" and "transcribe recog (concat blocks) = Inr text" and "text \<noteq> []"
  shows "clipboard (ctrl (sys_run dpid (sys_init pf) (dictation_session os blocks recog))) = [CHR '' '' # text]
         \<and> state (ctrl (sys_run dpid (sys_init pf) (dictation_session os blocks recog))) = IDLE
         \<and> pc (sys_run dpid (sys_init pf) (dictation_session os blocks recog)) = Serving
         \<and> status (sys_run dpid (sys_init pf) (dictation_session os blocks recog)) = Alive
         \<and> pid_file (sys_run dpid (sys_init pf) (dictation_session os blocks recog)) = Some (py_str_int dpid)"
proof -
  let ?s2 = "sys_run dpid (sys_init pf) [Boot, Model_loaded True, Run_trigger os, Handler_body dev_ok, Handler_return]"
  have s2: "?s2 = \<lparr>ctrl = init_daemon\<lparr>state := RECORDING, stream := Some Started, beeps := [(880, 8 / 100)]\<rparr>,
                   pid_file = Some (py_str_int dpid), status = Alive, pc = Serving\<rparr>"
    using assms(1) by (simp add: sys_eval ctrl_eval run_trigger_live)
  let ?s3 = "sys_run dpid ?s2 (map (\<lambda>b. Ctrl (Frame b)) blocks)"
  have s3: "?s3 = ?s2\<lparr>ctrl := (ctrl ?s2)\<lparr>audio_chunks := blocks\<rparr>\<rparr>"
    using sys_run_frames [of ?s2] s2 by (simp add: init_daemon_def)
  show ?thesis
    using assms s2 s3
    by (simp add: dictation_session_def sys_run_append sys_eval ctrl_eval run_trigger_live
        transcribe_and_paste_try_def paste_text_def transcribe_and_paste_finally_def)
qed

theorem dictation_session_delivers_text_witness:
  "valid_pid 42 \<and> transcribe (\<lambda>a l. Inr [''hello world'']) (concat [replicate 8000 (1 / 10)]) = Inr ''hello world'' \<and>
   ''hello world'' \<noteq> [] \<and>
   clipboard (ctrl (sys_run 42 (sys_init None)
     (dictation_session (os_with 7 []) [replicate 8000 (1 / 10)] (\<lambda>a l. Inr [''hello world''])))) = ['' hello world'']"
proof -
  have t: "transcribe (\<lambda>a l. Inr [''hello world'']) (concat [replicate 8000 (1 / 10)]) = Inr ''hello world''"
    using transcribe_loud_buffer(1) by simp
  have "valid_pid 42" by (simp add: valid_pid_def PID_MAX_def)
  with dictation_session_delivers_text [OF this t, of None "os_with 7 []"] t show ?thesis by simp
qed

end
